theory Spec2Isabelle
  imports Main "HOL-Library.Sublist"
begin

section \<open>Python values, exceptions and text\<close>

text \<open>
  The ingestion pipeline of \<^verbatim>\<open>src/data_ingestion/ingestion_pipeline.py\<close> and the loader of
  \<^verbatim>\<open>src/config/config_loader.py\<close>, as functions over an explicit world: the process
  environment, the file system, standard output and the remote vector store.

  A cell of the pandas frame is a string, a number or the missing value. The number type
  is a parameter, so nothing is assumed about how ratings are represented.
\<close>

datatype 'n cell = Str string | Num 'n | NaN

text \<open>
  The exceptions of the source, each with its message; \<open>KeyError\<close> and \<open>TypeError\<close> of a
  subscript; \<open>ValidationError\<close> of the Document constructor; and \<open>External\<close> for whatever
  else an external library (pandas, PyYAML, the model loader, the store client) raises.
\<close>

datatype error =
    EnvironmentError string
  | FileNotFoundError string
  | ValueError string
  | KeyError string
  | TypeError
  | ValidationError
  | External string

type_synonym 'a result = "error + 'a"

text \<open>\<^verbatim>\<open>str(n)\<close> of a non-negative length, in decimal.\<close>

fun str_nat :: "nat \<Rightarrow> string" where
  "str_nat n =
     (if n < 10 then [''0123456789'' ! n]
      else str_nat (n div 10) @ [''0123456789'' ! (n mod 10)])"

declare str_nat.simps [simp del]

text \<open>
  \<^verbatim>\<open>repr\<close> of a string without quotes or escapes (every string the source formats this
  way is one of its own constants), of a list of such strings and of a non-empty set of
  them, the set being given in its iteration order.
\<close>

definition repr_str :: "string \<Rightarrow> string" where
  "repr_str s = [CHR 0x27] @ s @ [CHR 0x27]"

fun comma_join :: "string list \<Rightarrow> string" where
  "comma_join [] = []"
| "comma_join [x] = x"
| "comma_join (x # y # ys) = x @ '', '' @ comma_join (y # ys)"

definition repr_list :: "string list \<Rightarrow> string" where
  "repr_list xs = ''['' @ comma_join (map repr_str xs) @ '']''"

definition repr_set :: "string list \<Rightarrow> string" where
  "repr_set xs = ''{'' @ comma_join (map repr_str xs) @ ''}''"

text \<open>\<^verbatim>\<open>os.path.join\<close> on a POSIX system.\<close>

fun path_join :: "string \<Rightarrow> string list \<Rightarrow> string" where
  "path_join path [] = path"
| "path_join path (b # p) =
     path_join
       (if take 1 b = ''/'' then b
        else if path = [] \<or> last path = CHR ''/'' then path @ b
        else path @ ''/'' @ b) p"

section \<open>Data model\<close>

text \<open>
  A row as \<^verbatim>\<open>iterrows\<close> yields it: a pandas Series, from column label to cell. A frame is
  its column labels and its rows in order.
\<close>

type_synonym 'n row = "string \<rightharpoonup> 'n cell"

record 'n dataframe =
  columns :: "string list"
  rows :: "'n row list"

text \<open>
  The LangChain Document: \<open>page_content\<close> is a string, \<open>metadata\<close> a dict of any values.
\<close>

record 'n document =
  page_content :: string
  metadata :: "string \<rightharpoonup> 'n cell"

text \<open>
  Its constructor, \<^verbatim>\<open>Document(page_content=..., metadata=...)\<close>. The class declares
  \<^verbatim>\<open>page_content: str\<close> and validates it: a value that is not a string (a number, or the
  missing value that pandas puts where a field of the file is empty) is refused with a
  validation error. The metadata is stored as it is passed.
\<close>

definition Document :: "'n cell \<Rightarrow> (string \<rightharpoonup> 'n cell) \<Rightarrow> 'n document result" where
  "Document content md =
     (case content of
        Str s \<Rightarrow> Inr \<lparr>page_content = s, metadata = md\<rparr>
      | Num n \<Rightarrow> Inl ValidationError
      | NaN \<Rightarrow> Inl ValidationError)"

text \<open>
  What \<^verbatim>\<open>yaml.safe_load\<close> returns, as far as the source looks into it: a mapping with
  string keys, or a value that cannot be subscripted by a string (\<open>YOther\<close> is a list, a
  float or a boolean).
\<close>

datatype yaml = YNull | YStr string | YInt int | YOther | YMap "string \<Rightarrow> yaml option"

datatype model_loader = ModelLoader

datatype embedding = Embedding string

text \<open>The \<^verbatim>\<open>AstraDBVectorStore\<close> client object: the arguments it was constructed with.\<close>

record vector_store =
  vs_embedding :: embedding
  vs_collection_name :: yaml
  vs_api_endpoint :: "string option"
  vs_token :: "string option"
  vs_namespace :: "string option"

text \<open>The requests the pipeline sends to the store, in the order they are sent.\<close>

datatype 'n store_call =
    AddDocuments vector_store "'n document list"
  | SimilaritySearch vector_store string

text \<open>
  A line on standard output: a text, or the line
  \<^verbatim>\<open>f"Content: {res.page_content}\nMetadata: {res.metadata}\n"\<close> of one search result.
\<close>

datatype 'n printed = Line string | ResultLine string "string \<rightharpoonup> 'n cell"

text \<open>
  The world the process runs in. The fields up to \<open>similarity_search_outcome\<close> are what
  the surroundings answer; \<open>stdout\<close> and \<open>store_calls\<close> record what the process did.
  \<open>new_model_loader\<close> and \<open>load_embeddings\<close> are the outcomes of \<^verbatim>\<open>ModelLoader()\<close> and of
  its \<^verbatim>\<open>load_embeddings()\<close>, a module of the repository that the pipeline only calls; the
  two calls are taken to return or raise and to leave the rest of the world as it is.
  \<open>hash_order\<close> is the order in which this process iterates the set literal
  \<^verbatim>\<open>{'product_title', 'rating', 'summary', 'review'}\<close>, which depends on the string hash seed.
  The store's answers may depend on the requests it has received so far.
\<close>

record 'n world =
  environ :: "string \<rightharpoonup> string"
  dotenv_file :: "string \<rightharpoonup> string"
  cwd :: string
  path_exists :: "string \<Rightarrow> bool"
  read_csv :: "string \<Rightarrow> 'n dataframe result"
  open_read :: "string \<Rightarrow> string result"
  safe_load :: "string \<Rightarrow> yaml result"
  hash_order :: "string list"
  new_model_loader :: "model_loader result"
  load_embeddings :: "embedding result"
  new_vector_store :: "vector_store \<Rightarrow> error option"
  add_documents_outcome ::
    "'n store_call list \<Rightarrow> vector_store \<Rightarrow> 'n document list \<Rightarrow> string list result"
  similarity_search_outcome ::
    "'n store_call list \<Rightarrow> vector_store \<Rightarrow> string \<Rightarrow> 'n document list result"
  stdout :: "'n printed list"
  store_calls :: "'n store_call list"

text \<open>The \<^verbatim>\<open>DataIngestion\<close> object once \<^verbatim>\<open>__init__\<close> has returned.\<close>

record 'n ingestion =
  model_loader :: model_loader
  google_api_key :: "string option"
  db_api_endpoint :: "string option"
  db_application_token :: "string option"
  db_keyspace :: "string option"
  csv_path :: string
  product_data :: "'n dataframe"
  config :: yaml

section \<open>Primitive effects\<close>

definition print :: "string \<Rightarrow> 'n world \<Rightarrow> 'n world" where
  "print s w = w\<lparr>stdout := stdout w @ [Line s]\<rparr>"

definition send :: "'n store_call \<Rightarrow> 'n world \<Rightarrow> 'n world" where
  "send c w = w\<lparr>store_calls := store_calls w @ [c]\<rparr>"

text \<open>\<^verbatim>\<open>load_dotenv()\<close>: the file's assignments, without overriding what is already set.\<close>

definition load_dotenv :: "'n world \<Rightarrow> 'n world" where
  "load_dotenv w = w\<lparr>environ := dotenv_file w ++ environ w\<rparr>"

definition getenv :: "'n world \<Rightarrow> string \<Rightarrow> string option" where
  "getenv w var = environ w var"

text \<open>Subscripting a Series or a dict, and subscripting a loaded YAML value by a string.\<close>

definition getitem :: "(string \<rightharpoonup> 'v) \<Rightarrow> string \<Rightarrow> 'v result" where
  "getitem d k = (case d k of None \<Rightarrow> Inl (KeyError k) | Some v \<Rightarrow> Inr v)"

fun yaml_getitem :: "yaml \<Rightarrow> string \<Rightarrow> yaml result" where
  "yaml_getitem (YMap m) k = getitem m k"
| "yaml_getitem YNull k = Inl TypeError"
| "yaml_getitem (YStr s) k = Inl TypeError"
| "yaml_getitem (YInt i) k = Inl TypeError"
| "yaml_getitem YOther k = Inl TypeError"

section \<open>config\_loader.load\_config\<close>

definition load_config :: "string \<Rightarrow> 'n world \<Rightarrow> yaml result" where
  "load_config config_path w =
     (case open_read w config_path of
        Inl e \<Rightarrow> Inl e
      | Inr file \<Rightarrow> safe_load w file)"

section \<open>DataIngestion\<close>

definition required_vars :: "string list" where
  "required_vars =
     [''GOOGLE_API_KEY'', ''ASTRA_DB_API_ENDPOINT'', ''ASTRA_DB_APPLICATION_TOKEN'',
      ''ASTRA_DB_KEYSPACE'']"

definition missing_vars :: "'n world \<Rightarrow> string list" where
  "missing_vars w = filter (\<lambda>var. getenv w var = None) required_vars"

text \<open>
  \<^verbatim>\<open>_load_env_variables\<close>. The four values it stores on the object are returned, in the
  order of the four assignments.
\<close>

definition load_env_variables ::
  "'n world \<Rightarrow>
     (string option \<times> string option \<times> string option \<times> string option) result \<times> 'n world"
where
  "load_env_variables w0 =
     (let w = load_dotenv w0 in
      if missing_vars w \<noteq> [] then
        (Inl (EnvironmentError
               (''Missing environment variables: '' @ repr_list (missing_vars w))), w)
      else
        (Inr (getenv w ''GOOGLE_API_KEY'', getenv w ''ASTRA_DB_API_ENDPOINT'',
              getenv w ''ASTRA_DB_APPLICATION_TOKEN'', getenv w ''ASTRA_DB_KEYSPACE''), w))"

definition get_csv_path :: "'n world \<Rightarrow> string result" where
  "get_csv_path w =
     (let current_dir = cwd w;
          csv_path = path_join current_dir [''data'', ''flipkart_product_review.csv'']
      in if \<not> path_exists w csv_path
         then Inl (FileNotFoundError (''CSV file not found at: '' @ csv_path))
         else Inr csv_path)"

definition expected_columns :: "string set" where
  "expected_columns = {''product_title'', ''rating'', ''summary'', ''review''}"

definition load_csv :: "string \<Rightarrow> 'n world \<Rightarrow> 'n dataframe result" where
  "load_csv path w =
     (case read_csv w path of
        Inl e \<Rightarrow> Inl e
      | Inr df \<Rightarrow>
          if \<not> expected_columns \<subseteq> set (columns df)
          then Inl (ValueError (''CSV must contain columns: '' @ repr_set (hash_order w)))
          else Inr df)"

text \<open>\<^verbatim>\<open>__init__\<close>: the first failing step ends it, and no object exists then.\<close>

definition init :: "'n world \<Rightarrow> 'n ingestion result \<times> 'n world" where
  "init w0 =
     (let w1 = print ''Initializing DataIngestion pipeline...'' w0 in
      case new_model_loader w1 of
        Inl e \<Rightarrow> (Inl e, w1)
      | Inr ml \<Rightarrow>
          (case load_env_variables w1 of
             (Inl e, w2) \<Rightarrow> (Inl e, w2)
           | (Inr (key, endpoint, token, keyspace), w2) \<Rightarrow>
               (case get_csv_path w2 of
                  Inl e \<Rightarrow> (Inl e, w2)
                | Inr path \<Rightarrow>
                    (case load_csv path w2 of
                       Inl e \<Rightarrow> (Inl e, w2)
                     | Inr df \<Rightarrow>
                         (case load_config ''config/config.yaml'' w2 of
                            Inl e \<Rightarrow> (Inl e, w2)
                          | Inr cfg \<Rightarrow>
                              (Inr \<lparr>model_loader = ml, google_api_key = key,
                                    db_api_endpoint = endpoint,
                                    db_application_token = token,
                                    db_keyspace = keyspace, csv_path = path,
                                    product_data = df, config = cfg\<rparr>, w2))))))"

subsection \<open>transform\_data\<close>

text \<open>The body of the first loop: the dict built from one row.\<close>

definition product_entry :: "'n row \<Rightarrow> (string \<rightharpoonup> 'n cell) result" where
  "product_entry row =
     (case getitem row ''product_title'' of Inl e \<Rightarrow> Inl e | Inr name \<Rightarrow>
     (case getitem row ''rating'' of Inl e \<Rightarrow> Inl e | Inr rating \<Rightarrow>
     (case getitem row ''summary'' of Inl e \<Rightarrow> Inl e | Inr summary \<Rightarrow>
     (case getitem row ''review'' of Inl e \<Rightarrow> Inl e | Inr review \<Rightarrow>
        Inr [''product_name'' \<mapsto> name, ''product_rating'' \<mapsto> rating,
             ''product_summary'' \<mapsto> summary, ''product_review'' \<mapsto> review]))))"

text \<open>The first loop, with \<open>product_list\<close> as accumulator.\<close>

fun collect_entries ::
  "'n row list \<Rightarrow> (string \<rightharpoonup> 'n cell) list \<Rightarrow> (string \<rightharpoonup> 'n cell) list result"
where
  "collect_entries [] product_list = Inr product_list"
| "collect_entries (row # rest) product_list =
     (case product_entry row of
        Inl e \<Rightarrow> Inl e
      | Inr entry \<Rightarrow> collect_entries rest (product_list @ [entry]))"

text \<open>The body of the second loop: the Document built from one dict.\<close>

definition entry_document :: "(string \<rightharpoonup> 'n cell) \<Rightarrow> 'n document result" where
  "entry_document entry =
     (case getitem entry ''product_name'' of Inl e \<Rightarrow> Inl e | Inr name \<Rightarrow>
     (case getitem entry ''product_rating'' of Inl e \<Rightarrow> Inl e | Inr rating \<Rightarrow>
     (case getitem entry ''product_summary'' of Inl e \<Rightarrow> Inl e | Inr summary \<Rightarrow>
     (case getitem entry ''product_review'' of Inl e \<Rightarrow> Inl e | Inr review \<Rightarrow>
        Document review
          [''product_name'' \<mapsto> name, ''product_rating'' \<mapsto> rating,
           ''product_summary'' \<mapsto> summary]))))"

text \<open>The second loop, with \<open>documents\<close> as accumulator.\<close>

fun collect_documents ::
  "(string \<rightharpoonup> 'n cell) list \<Rightarrow> 'n document list \<Rightarrow> 'n document list result"
where
  "collect_documents [] documents = Inr documents"
| "collect_documents (entry # rest) documents =
     (case entry_document entry of
        Inl e \<Rightarrow> Inl e
      | Inr doc \<Rightarrow> collect_documents rest (documents @ [doc]))"

text \<open>
  A method takes the object and the world and returns its result, the object and the world
  after the call.
\<close>

definition transform_data ::
  "'n ingestion \<Rightarrow> 'n world \<Rightarrow> 'n document list result \<times> 'n ingestion \<times> 'n world"
where
  "transform_data self w =
     (case collect_entries (rows (product_data self)) [] of
        Inl e \<Rightarrow> (Inl e, self, w)
      | Inr product_list \<Rightarrow>
          (case collect_documents product_list [] of
             Inl e \<Rightarrow> (Inl e, self, w)
           | Inr documents \<Rightarrow>
               (Inr documents, self,
                print (''Transformed '' @ str_nat (length documents) @ '' documents.'') w)))"

subsection \<open>store\_in\_vector\_db\<close>

definition store_in_vector_db ::
  "'n ingestion \<Rightarrow> 'n document list \<Rightarrow> 'n world \<Rightarrow>
     (vector_store \<times> string list) result \<times> 'n ingestion \<times> 'n world"
where
  "store_in_vector_db self documents w =
     (case yaml_getitem (config self) ''astra_db'' of
        Inl e \<Rightarrow> (Inl e, self, w)
      | Inr astra_db \<Rightarrow>
     (case yaml_getitem astra_db ''collection_name'' of
        Inl e \<Rightarrow> (Inl e, self, w)
      | Inr collection_name \<Rightarrow>
     (case load_embeddings w of
        Inl e \<Rightarrow> (Inl e, self, w)
      | Inr emb \<Rightarrow>
          (let vstore = \<lparr>vs_embedding = emb, vs_collection_name = collection_name,
                          vs_api_endpoint = db_api_endpoint self,
                          vs_token = db_application_token self,
                          vs_namespace = db_keyspace self\<rparr>
           in case new_vector_store w vstore of
                Some e \<Rightarrow> (Inl e, self, w)
              | None \<Rightarrow>
                  (let w1 = send (AddDocuments vstore documents) w in
                   case add_documents_outcome w (store_calls w) vstore documents of
                     Inl e \<Rightarrow> (Inl e, self, w1)
                   | Inr inserted_ids \<Rightarrow>
                       (Inr (vstore, inserted_ids), self,
                        print (''Successfully inserted '' @ str_nat (length inserted_ids)
                               @ '' documents into AstraDB.'') w1))))))"

subsection \<open>run\_pipeline and the entry point\<close>

definition query :: string where
  "query = ''Can you tell me the low budget headphone?''"

fun print_results :: "'n document list \<Rightarrow> 'n world \<Rightarrow> 'n world" where
  "print_results [] w = w"
| "print_results (res # rest) w =
     print_results rest
       (w\<lparr>stdout := stdout w @ [ResultLine (page_content res) (metadata res)]\<rparr>)"

definition run_pipeline ::
  "'n ingestion \<Rightarrow> 'n world \<Rightarrow> unit result \<times> 'n ingestion \<times> 'n world"
where
  "run_pipeline self w =
     (case transform_data self w of
        (Inl e, self1, w1) \<Rightarrow> (Inl e, self1, w1)
      | (Inr documents, self1, w1) \<Rightarrow>
     (case store_in_vector_db self1 documents w1 of
        (Inl e, self2, w2) \<Rightarrow> (Inl e, self2, w2)
      | (Inr (vstore, inserted_ids), self2, w2) \<Rightarrow>
          (let w3 = send (SimilaritySearch vstore query) w2 in
           case similarity_search_outcome w2 (store_calls w2) vstore query of
             Inl e \<Rightarrow> (Inl e, self2, w3)
           | Inr results \<Rightarrow>
               (Inr (), self2,
                print_results results
                  (print ([CHR 0x0A] @ ''Sample search results for query: ''
                          @ repr_str query) w3)))))"

text \<open>
  The script's entry point: \<^verbatim>\<open>ingestion = DataIngestion(); ingestion.run_pipeline()\<close>.
  The object is returned where the constructor built one.
\<close>

definition main :: "'n world \<Rightarrow> unit result \<times> 'n ingestion option \<times> 'n world" where
  "main w =
     (case init w of
        (Inl e, w1) \<Rightarrow> (Inl e, None, w1)
      | (Inr ingestion, w1) \<Rightarrow>
          (case run_pipeline ingestion w1 of
             (r, self, w2) \<Rightarrow> (r, Some self, w2)))"

section \<open>Vocabulary of the properties\<close>

text \<open>
  A row that has the four required fields; the review of a row when it is a string; and a
  valid row: one that has the four fields, the review being a string.
\<close>

definition has_fields :: "'n row \<Rightarrow> bool" where
  "has_fields row \<longleftrightarrow>
     row ''product_title'' \<noteq> None \<and> row ''rating'' \<noteq> None \<and>
     row ''summary'' \<noteq> None \<and> row ''review'' \<noteq> None"

definition review_text :: "'n row \<Rightarrow> string option" where
  "review_text row =
     (case row ''review'' of
        Some (Str s) \<Rightarrow> Some s
      | Some (Num n) \<Rightarrow> None
      | Some NaN \<Rightarrow> None
      | None \<Rightarrow> None)"

definition valid_row :: "'n row \<Rightarrow> bool" where
  "valid_row row \<longleftrightarrow>
     row ''product_title'' \<noteq> None \<and> row ''rating'' \<noteq> None \<and>
     row ''summary'' \<noteq> None \<and> review_text row \<noteq> None"

text \<open>
  The dict that the first loop builds from a row with the four fields, and the Document
  that the second loop builds from a valid row (used only for such rows).
\<close>

definition row_entry :: "'n row \<Rightarrow> (string \<rightharpoonup> 'n cell)" where
  "row_entry row =
     [''product_name'' \<mapsto> the (row ''product_title''),
      ''product_rating'' \<mapsto> the (row ''rating''),
      ''product_summary'' \<mapsto> the (row ''summary''),
      ''product_review'' \<mapsto> the (row ''review'')]"

definition row_document :: "'n row \<Rightarrow> 'n document" where
  "row_document row =
     \<lparr>page_content = the (review_text row),
      metadata = [''product_name'' \<mapsto> the (row ''product_title''),
                  ''product_rating'' \<mapsto> the (row ''rating''),
                  ''product_summary'' \<mapsto> the (row ''summary'')]\<rparr>"

text \<open>The two loops of \<open>transform_data\<close> one after the other, without the object and the world.\<close>

definition documents_of :: "'n row list \<Rightarrow> 'n document list result" where
  "documents_of rs =
     (case collect_entries rs [] of
        Inl e \<Rightarrow> Inl e
      | Inr product_list \<Rightarrow> collect_documents product_list [])"

text \<open>Two rows with the same four required fields, whatever else they carry.\<close>

definition agree_required :: "'n row \<Rightarrow> 'n row \<Rightarrow> bool" where
  "agree_required r1 r2 \<longleftrightarrow>
     r1 ''product_title'' = r2 ''product_title'' \<and> r1 ''rating'' = r2 ''rating'' \<and>
     r1 ''summary'' = r2 ''summary'' \<and> r1 ''review'' = r2 ''review''"

text \<open>The rows with their reviews replaced by the given ones, position by position.\<close>

definition with_reviews :: "'n row list \<Rightarrow> string list \<Rightarrow> 'n row list" where
  "with_reviews rs reviews =
     map (\<lambda>(row, review). row(''review'' \<mapsto> Str review)) (zip rs reviews)"

text \<open>
  A variable that is set neither in the process environment nor in the \<^verbatim>\<open>.env\<close> file; a
  message naming a string (it holds the string's \<^verbatim>\<open>repr\<close>); the required columns in the
  order the source writes them, those a frame lacks, and a message that names exactly the
  given ones among the required columns.
\<close>

definition absent :: "'n world \<Rightarrow> string \<Rightarrow> bool" where
  "absent w var \<longleftrightarrow> environ w var = None \<and> dotenv_file w var = None"

definition names :: "string \<Rightarrow> string \<Rightarrow> bool" where
  "names message name \<longleftrightarrow> sublist (repr_str name) message"

definition required_columns :: "string list" where
  "required_columns = [''product_title'', ''rating'', ''summary'', ''review'']"

definition missing_columns :: "'n dataframe \<Rightarrow> string list" where
  "missing_columns df = filter (\<lambda>c. c \<notin> set (columns df)) required_columns"

definition names_exactly :: "string \<Rightarrow> string list \<Rightarrow> bool" where
  "names_exactly message cs \<longleftrightarrow>
     list_all (\<lambda>c. names message c = (c \<in> set cs)) required_columns"

text \<open>The two messages, as the source's f-strings build them.\<close>

definition credential_message :: "string list \<Rightarrow> string" where
  "credential_message missing = ''Missing environment variables: '' @ repr_list missing"

definition schema_message :: "'n world \<Rightarrow> string" where
  "schema_message w = ''CSV must contain columns: '' @ repr_set (hash_order w)"

text \<open>The path the source looks for, the store client it builds, and the lines it prints.\<close>

definition data_file :: "'n world \<Rightarrow> string" where
  "data_file w = path_join (cwd w) [''data'', ''flipkart_product_review.csv'']"

definition client :: "'n ingestion \<Rightarrow> embedding \<Rightarrow> yaml \<Rightarrow> vector_store" where
  "client self emb collection_name =
     \<lparr>vs_embedding = emb, vs_collection_name = collection_name,
      vs_api_endpoint = db_api_endpoint self, vs_token = db_application_token self,
      vs_namespace = db_keyspace self\<rparr>"

definition transformed_line :: "nat \<Rightarrow> 'n printed" where
  "transformed_line n = Line (''Transformed '' @ str_nat n @ '' documents.'')"

definition inserted_line :: "nat \<Rightarrow> 'n printed" where
  "inserted_line n = Line (''Successfully inserted '' @ str_nat n @ '' documents into AstraDB.'')"

definition sample_line :: "'n printed" where
  "sample_line = Line ([CHR 0x0A] @ ''Sample search results for query: '' @ repr_str query)"

section \<open>Sample data\<close>

text \<open>
  A frame of two reviews with an extra column, the second review empty; the same reviews
  without the extra column and with the columns in another order; a world in which every
  step succeeds; and the object the constructor builds there.
\<close>

definition demo_frame :: "int dataframe" where
  "demo_frame =
     \<lparr>columns = [''product_title'', ''rating'', ''summary'', ''review'', ''price''],
      rows =
        [[''product_title'' \<mapsto> Str ''Headphone A'', ''rating'' \<mapsto> Num 4,
          ''summary'' \<mapsto> Str ''Good bass'',
          ''review'' \<mapsto> Str ''Great sound for the price'', ''price'' \<mapsto> Num 999],
         [''product_title'' \<mapsto> Str ''Headphone B'', ''rating'' \<mapsto> Num 2,
          ''summary'' \<mapsto> Str ''Poor'', ''review'' \<mapsto> Str [],
          ''price'' \<mapsto> Num 450]]\<rparr>"

definition demo_config :: yaml where
  "demo_config = YMap [''astra_db'' \<mapsto> YMap [''collection_name'' \<mapsto> YStr ''reviews'']]"

definition demo_world :: "int world" where
  "demo_world =
     \<lparr>environ =
        [''GOOGLE_API_KEY'' \<mapsto> ''k'', ''ASTRA_DB_API_ENDPOINT'' \<mapsto> ''e'',
         ''ASTRA_DB_APPLICATION_TOKEN'' \<mapsto> ''t''],
      dotenv_file = [''ASTRA_DB_KEYSPACE'' \<mapsto> ''ks''],
      cwd = ''/app'',
      path_exists = (\<lambda>p. p = ''/app/data/flipkart_product_review.csv''),
      read_csv = (\<lambda>p. Inr demo_frame),
      open_read = (\<lambda>p. if p = ''config/config.yaml'' then Inr ''astra_db: ...''
                        else Inl (External ''OSError'')),
      safe_load = (\<lambda>s. Inr demo_config),
      hash_order = [''rating'', ''review'', ''product_title'', ''summary''],
      new_model_loader = Inr ModelLoader,
      load_embeddings = Inr (Embedding ''m''),
      new_vector_store = (\<lambda>vs. None),
      add_documents_outcome = (\<lambda>calls vs docs. Inr (map (\<lambda>d. ''id'') docs)),
      similarity_search_outcome = (\<lambda>calls vs q. Inr []),
      stdout = [],
      store_calls = []\<rparr>"

definition demo_self :: "int ingestion" where
  "demo_self =
     \<lparr>model_loader = ModelLoader, google_api_key = Some ''k'',
      db_api_endpoint = Some ''e'', db_application_token = Some ''t'',
      db_keyspace = Some ''ks'', csv_path = ''/app/data/flipkart_product_review.csv'',
      product_data = demo_frame, config = demo_config\<rparr>"

definition demo_frame_narrow :: "int dataframe" where
  "demo_frame_narrow =
     \<lparr>columns = [''review'', ''summary'', ''rating'', ''product_title''],
      rows =
        [[''review'' \<mapsto> Str ''Great sound for the price'', ''summary'' \<mapsto> Str ''Good bass'',
          ''rating'' \<mapsto> Num 4, ''product_title'' \<mapsto> Str ''Headphone A''],
         [''review'' \<mapsto> Str [], ''summary'' \<mapsto> Str ''Poor'', ''rating'' \<mapsto> Num 2,
          ''product_title'' \<mapsto> Str ''Headphone B'']]\<rparr>"

text \<open>
  A frame without the \<open>review\<close> column, the sample world with that frame as the file's
  content, and the sample world with two of the four credentials set nowhere.
\<close>

definition demo_frame_no_review :: "int dataframe" where
  "demo_frame_no_review =
     \<lparr>columns = [''product_title'', ''rating'', ''summary''],
      rows = [[''product_title'' \<mapsto> Str ''Headphone A'', ''rating'' \<mapsto> Num 4,
               ''summary'' \<mapsto> Str ''Good bass'']]\<rparr>"

definition demo_world_two_missing :: "int world" where
  "demo_world_two_missing =
     demo_world\<lparr>environ := [''GOOGLE_API_KEY'' \<mapsto> ''k'', ''ASTRA_DB_API_ENDPOINT'' \<mapsto> ''e''],
                dotenv_file := Map.empty\<rparr>"

definition demo_world_no_review :: "int world" where
  "demo_world_no_review = demo_world\<lparr>read_csv := (\<lambda>p. Inr demo_frame_no_review)\<rparr>"

text \<open>
  The sample world with a store that returns one identifier for the two Documents, with a
  store whose search fails, and without the data file; and the client built in them.
\<close>

definition demo_world_short_store :: "int world" where
  "demo_world_short_store =
     demo_world\<lparr>add_documents_outcome := (\<lambda>calls vs docs. Inr [''id-1''])\<rparr>"

definition demo_world_search_fails :: "int world" where
  "demo_world_search_fails =
     demo_world\<lparr>similarity_search_outcome := (\<lambda>calls vs q. Inl (External ''timeout''))\<rparr>"

definition demo_world_no_file :: "int world" where
  "demo_world_no_file = demo_world\<lparr>path_exists := (\<lambda>p. False)\<rparr>"

definition demo_client :: vector_store where
  "demo_client =
     \<lparr>vs_embedding = Embedding ''m'', vs_collection_name = YStr ''reviews'',
      vs_api_endpoint = Some ''e'', vs_token = Some ''t'', vs_namespace = Some ''ks''\<rparr>"

section \<open>The world after the primitive effects\<close>

lemma print_simps [simp]:
  "stdout (print s w) = stdout w @ [Line s]"
  "store_calls (print s w) = store_calls w"
  "environ (print s w) = environ w"
  "dotenv_file (print s w) = dotenv_file w"
  "cwd (print s w) = cwd w"
  "path_exists (print s w) = path_exists w"
  "read_csv (print s w) = read_csv w"
  "open_read (print s w) = open_read w"
  "safe_load (print s w) = safe_load w"
  "hash_order (print s w) = hash_order w"
  "new_model_loader (print s w) = new_model_loader w"
  "load_embeddings (print s w) = load_embeddings w"
  "new_vector_store (print s w) = new_vector_store w"
  "add_documents_outcome (print s w) = add_documents_outcome w"
  "similarity_search_outcome (print s w) = similarity_search_outcome w"
  by (simp_all add: print_def)

lemma send_simps [simp]:
  "stdout (send c w) = stdout w"
  "store_calls (send c w) = store_calls w @ [c]"
  "similarity_search_outcome (send c w) = similarity_search_outcome w"
  "add_documents_outcome (send c w) = add_documents_outcome w"
  by (simp_all add: send_def)

lemma load_dotenv_simps [simp]:
  "stdout (load_dotenv w) = stdout w"
  "store_calls (load_dotenv w) = store_calls w"
  "environ (load_dotenv w) = dotenv_file w ++ environ w"
  "cwd (load_dotenv w) = cwd w"
  "path_exists (load_dotenv w) = path_exists w"
  "read_csv (load_dotenv w) = read_csv w"
  "open_read (load_dotenv w) = open_read w"
  "safe_load (load_dotenv w) = safe_load w"
  "hash_order (load_dotenv w) = hash_order w"
  "new_model_loader (load_dotenv w) = new_model_loader w"
  by (simp_all add: load_dotenv_def)

section \<open>The two loops of transform\_data\<close>

lemma valid_row_iff: "valid_row row \<longleftrightarrow> has_fields row \<and> review_text row \<noteq> None"
  by (auto simp: valid_row_def has_fields_def review_text_def split: option.splits)

lemma review_text_Some: "review_text row = Some s \<longleftrightarrow> row ''review'' = Some (Str s)"
  by (auto simp: review_text_def split: option.splits cell.splits)

lemma product_entry_Inr_iff:
  "product_entry row = Inr entry \<longleftrightarrow> has_fields row \<and> entry = row_entry row"
  by (auto simp: product_entry_def getitem_def has_fields_def row_entry_def
           split: option.splits)

lemma entry_document_row_entry:
  assumes "has_fields row"
  shows "entry_document (row_entry row) =
           (if review_text row \<noteq> None then Inr (row_document row) else Inl ValidationError)"
proof -
  from assms obtain review where r: "row ''review'' = Some review"
    by (auto simp: has_fields_def)
  then show ?thesis
    by (cases review)
       (simp_all add: entry_document_def getitem_def row_entry_def row_document_def
          Document_def review_text_def)
qed

lemma collect_entries_Inr_iff:
  "collect_entries rs acc = Inr pl \<longleftrightarrow>
     list_all has_fields rs \<and> pl = acc @ map row_entry rs"
proof (induction rs arbitrary: acc)
  case Nil
  show ?case by auto
next
  case (Cons r rs)
  show ?case
  proof (cases "product_entry r")
    case (Inl e)
    moreover from Inl have "\<not> has_fields r"
      using product_entry_Inr_iff [of r "row_entry r"] by auto
    ultimately show ?thesis by simp
  next
    case (Inr entry)
    then have "has_fields r" "entry = row_entry r"
      using product_entry_Inr_iff [of r entry] by auto
    with Inr Cons.IH [of "acc @ [entry]"] show ?thesis by simp
  qed
qed

lemma collect_entries_Inl:
  "\<not> list_all has_fields rs \<Longrightarrow> \<exists>e. collect_entries rs acc = Inl e"
  using collect_entries_Inr_iff [of rs acc]
  by (cases "collect_entries rs acc") auto

lemma collect_documents_row_entries:
  "list_all valid_row rs \<Longrightarrow>
     collect_documents (map row_entry rs) acc = Inr (acc @ map row_document rs)"
  by (induction rs arbitrary: acc) (simp_all add: entry_document_row_entry valid_row_iff)

text \<open>A review that is not a string stops the second loop at the constructor.\<close>

lemma collect_documents_refused:
  "list_all has_fields rs \<Longrightarrow> \<not> list_all valid_row rs \<Longrightarrow>
     collect_documents (map row_entry rs) acc = Inl ValidationError"
proof (induction rs arbitrary: acc)
  case Nil
  then show ?case by simp
next
  case (Cons r rs)
  then show ?case
    by (cases "review_text r = None") (simp_all add: entry_document_row_entry valid_row_iff)
qed

lemma documents_of_valid:
  "list_all valid_row rs \<Longrightarrow> documents_of rs = Inr (map row_document rs)"
proof -
  assume valid: "list_all valid_row rs"
  then have "list_all has_fields rs"
    by (simp add: list_all_iff valid_row_iff)
  then have "collect_entries rs [] = Inr (map row_entry rs)"
    by (simp add: collect_entries_Inr_iff)
  with valid show ?thesis
    by (simp add: documents_of_def collect_documents_row_entries)
qed

lemma documents_of_refused:
  "list_all has_fields rs \<Longrightarrow> \<not> list_all valid_row rs \<Longrightarrow>
     documents_of rs = Inl ValidationError"
proof -
  assume fields: "list_all has_fields rs" and invalid: "\<not> list_all valid_row rs"
  from fields have "collect_entries rs [] = Inr (map row_entry rs)"
    by (simp add: collect_entries_Inr_iff)
  with fields invalid show ?thesis
    by (simp add: documents_of_def collect_documents_refused)
qed

lemma documents_of_invalid:
  "\<not> list_all valid_row rs \<Longrightarrow> \<exists>e. documents_of rs = Inl e"
proof (cases "list_all has_fields rs")
  case True
  assume "\<not> list_all valid_row rs"
  with True show ?thesis
    by (simp add: documents_of_refused)
next
  case False
  then show ?thesis
    using collect_entries_Inl [of rs "[]"] by (auto simp: documents_of_def)
qed

lemma documents_of_Inr_iff:
  "documents_of rs = Inr docs \<longleftrightarrow> list_all valid_row rs \<and> docs = map row_document rs"
  using documents_of_valid [of rs] documents_of_invalid [of rs]
  by (cases "list_all valid_row rs") auto

lemma transform_data_eq:
  "transform_data self w =
     (case documents_of (rows (product_data self)) of
        Inl e \<Rightarrow> (Inl e, self, w)
      | Inr documents \<Rightarrow>
          (Inr documents, self,
           print (''Transformed '' @ str_nat (length documents) @ '' documents.'') w))"
  by (simp add: transform_data_def documents_of_def split: sum.splits)

lemma product_entry_agree:
  assumes "agree_required r1 r2"
  shows "product_entry r1 = product_entry r2"
proof -
  from assms have eqs:
    "getitem r1 ''product_title'' = getitem r2 ''product_title''"
    "getitem r1 ''rating'' = getitem r2 ''rating''"
    "getitem r1 ''summary'' = getitem r2 ''summary''"
    "getitem r1 ''review'' = getitem r2 ''review''"
    by (simp_all add: agree_required_def getitem_def)
  show ?thesis
    unfolding product_entry_def eqs ..
qed

lemma collect_entries_agree:
  "list_all2 agree_required rs1 rs2 \<Longrightarrow> collect_entries rs1 acc = collect_entries rs2 acc"
proof (induction rs1 rs2 arbitrary: acc rule: list_all2_induct)
  case Nil
  show ?case by simp
next
  case (Cons r1 rs1 r2 rs2)
  from Cons.hyps(1) have "product_entry r1 = product_entry r2"
    by (rule product_entry_agree)
  with Cons.IH show ?case
    by (simp split: sum.splits)
qed

lemma documents_of_agree:
  "list_all2 agree_required rs1 rs2 \<Longrightarrow> documents_of rs1 = documents_of rs2"
  by (simp add: documents_of_def collect_entries_agree)

lemma fst_transform_data: "fst (transform_data self w) = documents_of (rows (product_data self))"
  by (simp add: transform_data_eq split: sum.splits)

text \<open>
  Rows that have the four fields, one of them with a review that is not a string: the
  constructor's error ends \<open>transform_data\<close>, with no Documents and nothing printed.
\<close>

lemma transform_data_refused:
  "list_all has_fields (rows (product_data self)) \<Longrightarrow>
   \<not> list_all valid_row (rows (product_data self)) \<Longrightarrow>
     transform_data self w = (Inl ValidationError, self, w)"
  by (simp add: transform_data_eq documents_of_refused)

section \<open>transform\_data maps rows to Documents one to one\<close>



section \<open>Columns beyond the four required ones\<close>

text \<open>
  C8. Two frames whose rows agree index for index on \<open>product_title\<close>, \<open>rating\<close>,
  \<open>summary\<close> and \<open>review\<close> give the same result of \<open>transform_data\<close>, whatever other
  columns, object fields and world they come with.
\<close>

theorem transform_data_required_columns_only:
  assumes "length (rows (product_data self1)) = length (rows (product_data self2))"
    and "\<forall>i < length (rows (product_data self1)).
           agree_required (rows (product_data self1) ! i) (rows (product_data self2) ! i)"
  shows "fst (transform_data self1 w1) = fst (transform_data self2 w2)"
proof -
  from assms have "list_all2 agree_required (rows (product_data self1)) (rows (product_data self2))"
    by (simp add: list_all2_conv_all_nth)
  then show ?thesis
    by (simp add: fst_transform_data documents_of_agree)
qed

theorem transform_data_required_columns_only_witness:
  "length (rows (product_data demo_self)) =
     length (rows (product_data (demo_self\<lparr>product_data := demo_frame_narrow\<rparr>))) \<and>
   list_all2 agree_required (rows (product_data demo_self))
     (rows (product_data (demo_self\<lparr>product_data := demo_frame_narrow\<rparr>))) \<and>
   (rows (product_data demo_self) ! 0) ''price'' = Some (Num 999) \<and>
   (rows (product_data (demo_self\<lparr>product_data := demo_frame_narrow\<rparr>)) ! 0) ''price'' = None \<and>
   fst (transform_data demo_self demo_world) =
     fst (transform_data (demo_self\<lparr>product_data := demo_frame_narrow\<rparr>)
            (print ''x'' demo_world))"
proof -
  have len: "length (rows (product_data demo_self)) =
      length (rows (product_data (demo_self\<lparr>product_data := demo_frame_narrow\<rparr>)))"
    by (simp add: demo_self_def demo_frame_def demo_frame_narrow_def)
  have agree: "\<forall>i < length (rows (product_data demo_self)).
      agree_required (rows (product_data demo_self) ! i)
        (rows (product_data (demo_self\<lparr>product_data := demo_frame_narrow\<rparr>)) ! i)"
    by (simp add: demo_self_def demo_frame_def demo_frame_narrow_def agree_required_def
        All_less_Suc)
  have price: "(rows (product_data demo_self) ! 0) ''price'' = Some (Num 999) \<and>
      (rows (product_data (demo_self\<lparr>product_data := demo_frame_narrow\<rparr>)) ! 0) ''price'' = None"
    by (simp add: demo_self_def demo_frame_def demo_frame_narrow_def)
  from len agree have "list_all2 agree_required (rows (product_data demo_self))
      (rows (product_data (demo_self\<lparr>product_data := demo_frame_narrow\<rparr>)))"
    by (simp add: list_all2_conv_all_nth)
  with transform_data_required_columns_only [OF len agree] len price
  show ?thesis by blast
qed

section \<open>The review goes to the text only\<close>

lemma row_document_metadata_upd:
  "metadata (row_document (row(''review'' \<mapsto> x))) = metadata (row_document row)"
  by (simp add: row_document_def)

lemma valid_row_upd: "valid_row row \<Longrightarrow> valid_row (row(''review'' \<mapsto> Str x))"
  by (simp add: valid_row_def review_text_def)

lemma dom_metadata_row_document:
  "dom (metadata (row_document row)) = {''product_name'', ''product_rating'', ''product_summary''}"
  by (auto simp: row_document_def)

lemma page_content_row_document:
  "valid_row row \<Longrightarrow> row ''review'' = Some (Str (page_content (row_document row)))"
proof -
  assume "valid_row row"
  then obtain s where rt: "review_text row = Some s"
    by (auto simp: valid_row_def)
  then have "row ''review'' = Some (Str s)"
    by (simp add: review_text_Some)
  with rt show ?thesis
    by (simp add: row_document_def)
qed

lemma with_reviews_valid:
  "list_all valid_row rs \<Longrightarrow> list_all valid_row (with_reviews rs reviews)"
  by (auto simp: list_all_iff with_reviews_def valid_row_upd dest!: set_zip_leftD)

lemma with_reviews_metadata:
  "length reviews = length rs \<Longrightarrow>
     map (metadata \<circ> row_document) (with_reviews rs reviews) = map (metadata \<circ> row_document) rs"
proof (induction rs arbitrary: reviews)
  case Nil
  then show ?case by (simp add: with_reviews_def)
next
  case (Cons r rs)
  then obtain x xs where "reviews = x # xs" "length xs = length rs"
    by (cases reviews) auto
  with Cons.IH [of xs] show ?case
    by (simp add: with_reviews_def row_document_metadata_upd)
qed

text \<open>
  C7. Every Document that \<open>transform_data\<close> returns has exactly the metadata keys
  \<open>product_name\<close>, \<open>product_rating\<close> and \<open>product_summary\<close>; the review of each row is the
  text of its Document; and the review is not copied into the metadata: replacing the
  reviews of the rows by any other strings changes the texts and leaves every metadata as
  it was.
  (A title or a summary that reads the same as the review is still in the metadata, as
  that row's title or summary.)
\<close>

theorem metadata_without_review:
  assumes "fst (transform_data self w) = Inr docs"
  shows "(\<forall>d \<in> set docs.
            dom (metadata d) = {''product_name'', ''product_rating'', ''product_summary''}) \<and>
         map (\<lambda>row. row ''review'') (rows (product_data self)) =
           map (\<lambda>d. Some (Str (page_content d))) docs \<and>
         (\<forall>reviews self' w'. length reviews = length (rows (product_data self)) \<and>
            rows (product_data self') = with_reviews (rows (product_data self)) reviews \<longrightarrow>
            (\<exists>docs'. fst (transform_data self' w') = Inr docs' \<and>
               map metadata docs' = map metadata docs \<and>
               map page_content docs' = reviews))"
proof -
  let ?rs = "rows (product_data self)"
  from assms have valid: "list_all valid_row ?rs" and docs: "docs = map row_document ?rs"
    by (simp_all add: fst_transform_data documents_of_Inr_iff)
  have keys: "\<forall>d \<in> set docs.
      dom (metadata d) = {''product_name'', ''product_rating'', ''product_summary''}"
    using docs by (auto simp: dom_metadata_row_document simp del: dom_eq_empty_conv)
  have contents: "map (\<lambda>row. row ''review'') ?rs = map (\<lambda>d. Some (Str (page_content d))) docs"
    using valid docs by (simp add: list_all_iff page_content_row_document)
  have other: "\<exists>docs'. fst (transform_data self' w') = Inr docs' \<and>
      map metadata docs' = map metadata docs \<and> map page_content docs' = reviews"
    if len: "length reviews = length ?rs"
      and rs': "rows (product_data self') = with_reviews ?rs reviews"
    for reviews and self' :: "'a ingestion" and w' :: "'a world"
  proof -
    from valid have "list_all valid_row (with_reviews ?rs reviews)"
      by (rule with_reviews_valid)
    then have res: "fst (transform_data self' w') = Inr (map row_document (with_reviews ?rs reviews))"
      by (simp add: fst_transform_data rs' documents_of_valid)
    have md: "map metadata (map row_document (with_reviews ?rs reviews)) = map metadata docs"
      using with_reviews_metadata [OF len] docs by simp
    have pc: "map page_content (map row_document (with_reviews rs reviews)) = reviews"
      if "length reviews = length rs" for rs :: "'a row list"
      using that
    proof (induction rs arbitrary: reviews)
      case Nil
      then show ?case by (simp add: with_reviews_def)
    next
      case (Cons r rs)
      then obtain x xs where "reviews = x # xs" "length xs = length rs"
        by (cases reviews) auto
      with Cons.IH [of xs] show ?case
        by (simp add: with_reviews_def row_document_def review_text_def)
    qed
    from res md pc [OF len] show ?thesis by blast
  qed
  show ?thesis
  proof (intro conjI allI impI)
    show "\<forall>d \<in> set docs.
        dom (metadata d) = {''product_name'', ''product_rating'', ''product_summary''}"
      by (rule keys)
    show "map (\<lambda>row. row ''review'') ?rs = map (\<lambda>d. Some (Str (page_content d))) docs"
      by (rule contents)
    fix reviews and self' :: "'a ingestion" and w' :: "'a world"
    assume "length reviews = length ?rs \<and>
      rows (product_data self') = with_reviews ?rs reviews"
    then show "\<exists>docs'. fst (transform_data self' w') = Inr docs' \<and>
        map metadata docs' = map metadata docs \<and> map page_content docs' = reviews"
      by (elim conjE) (rule other)
  qed
qed

theorem metadata_without_review_witness:
  "fst (transform_data demo_self demo_world) =
     Inr [\<lparr>page_content = ''Great sound for the price'',
           metadata = [''product_name'' \<mapsto> Str ''Headphone A'', ''product_rating'' \<mapsto> Num 4,
                       ''product_summary'' \<mapsto> Str ''Good bass'']\<rparr>,
          \<lparr>page_content = [],
           metadata = [''product_name'' \<mapsto> Str ''Headphone B'', ''product_rating'' \<mapsto> Num 2,
                       ''product_summary'' \<mapsto> Str ''Poor'']\<rparr>] \<and>
   list_all (\<lambda>d. dom (metadata d) = {''product_name'', ''product_rating'', ''product_summary''})
     [\<lparr>page_content = ''Great sound for the price'',
       metadata = [''product_name'' \<mapsto> Str ''Headphone A'', ''product_rating'' \<mapsto> Num (4::int),
                   ''product_summary'' \<mapsto> Str ''Good bass'']\<rparr>,
      \<lparr>page_content = [],
       metadata = [''product_name'' \<mapsto> Str ''Headphone B'', ''product_rating'' \<mapsto> Num 2,
                   ''product_summary'' \<mapsto> Str ''Poor'']\<rparr>]"
proof -
  have run: "fst (transform_data demo_self demo_world) =
     Inr [\<lparr>page_content = ''Great sound for the price'',
           metadata = [''product_name'' \<mapsto> Str ''Headphone A'', ''product_rating'' \<mapsto> Num 4,
                       ''product_summary'' \<mapsto> Str ''Good bass'']\<rparr>,
          \<lparr>page_content = [],
           metadata = [''product_name'' \<mapsto> Str ''Headphone B'', ''product_rating'' \<mapsto> Num 2,
                       ''product_summary'' \<mapsto> Str ''Poor'']\<rparr>]"
    by (simp add: transform_data_def demo_self_def demo_frame_def product_entry_def
        entry_document_def Document_def getitem_def)
  let ?docs = "[\<lparr>page_content = ''Great sound for the price'',
       metadata = [''product_name'' \<mapsto> Str ''Headphone A'', ''product_rating'' \<mapsto> Num (4::int),
                   ''product_summary'' \<mapsto> Str ''Good bass'']\<rparr>,
      \<lparr>page_content = [],
       metadata = [''product_name'' \<mapsto> Str ''Headphone B'', ''product_rating'' \<mapsto> Num 2,
                   ''product_summary'' \<mapsto> Str ''Poor'']\<rparr>]"
  have "\<forall>d \<in> set ?docs.
      dom (metadata d) = {''product_name'', ''product_rating'', ''product_summary''}"
    using metadata_without_review [OF run] by (rule conjunct1)
  then have "list_all
      (\<lambda>d. dom (metadata d) = {''product_name'', ''product_rating'', ''product_summary''}) ?docs"
    unfolding list_all_iff .
  with run show ?thesis by (rule conjI)
qed

section \<open>What a call leaves of the object and of the world\<close>

lemma transform_data_object: "fst (snd (transform_data self w)) = self"
  by (simp add: transform_data_eq split: sum.splits)

lemma store_in_vector_db_object: "fst (snd (store_in_vector_db self docs w)) = self"
  by (simp add: store_in_vector_db_def Let_def split: sum.splits option.splits)

lemma run_pipeline_object: "fst (snd (run_pipeline self w)) = self"
proof -
  obtain r1 s1 w1 where t: "transform_data self w = (r1, s1, w1)"
    by (cases "transform_data self w") auto
  with transform_data_object [of self w] have s1: "s1 = self" by simp
  show ?thesis
  proof (cases r1)
    case (Inl e)
    with t s1 show ?thesis by (simp add: run_pipeline_def)
  next
    case (Inr docs)
    obtain r2 s2 w2 where st: "store_in_vector_db self docs w1 = (r2, s2, w2)"
      by (cases "store_in_vector_db self docs w1") auto
    with store_in_vector_db_object [of self docs w1] have s2: "s2 = self" by simp
    from t s1 Inr st s2 show ?thesis
      by (cases r2) (auto simp: run_pipeline_def Let_def split: sum.splits)
  qed
qed

lemma get_csv_path_cong [simp]:
  "get_csv_path (load_dotenv w) = get_csv_path w"
  "get_csv_path (print s w) = get_csv_path w"
  by (simp_all add: get_csv_path_def)

lemma load_csv_cong [simp]:
  "load_csv p (load_dotenv w) = load_csv p w"
  "load_csv p (print s w) = load_csv p w"
  by (simp_all add: load_csv_def split: sum.splits)

lemma load_config_cong [simp]:
  "load_config p (load_dotenv w) = load_config p w"
  "load_config p (print s w) = load_config p w"
  by (simp_all add: load_config_def split: sum.splits)

lemma load_env_variables_world: "snd (load_env_variables w) = load_dotenv w"
  by (simp add: load_env_variables_def Let_def)

lemma load_env_variables_Inl:
  "missing_vars (load_dotenv w) \<noteq> [] \<Longrightarrow>
     load_env_variables w =
       (Inl (EnvironmentError (''Missing environment variables: ''
              @ repr_list (missing_vars (load_dotenv w)))), load_dotenv w)"
  by (simp add: load_env_variables_def Let_def)

lemma load_env_variables_Inr:
  "missing_vars (load_dotenv w) = [] \<Longrightarrow>
     load_env_variables w =
       (Inr (getenv (load_dotenv w) ''GOOGLE_API_KEY'',
             getenv (load_dotenv w) ''ASTRA_DB_API_ENDPOINT'',
             getenv (load_dotenv w) ''ASTRA_DB_APPLICATION_TOKEN'',
             getenv (load_dotenv w) ''ASTRA_DB_KEYSPACE''), load_dotenv w)"
  by (simp add: load_env_variables_def Let_def)

lemma missing_vars_print [simp]: "missing_vars (load_dotenv (print s w)) = missing_vars (load_dotenv w)"
  by (simp add: missing_vars_def getenv_def)

lemma getenv_print [simp]: "getenv (load_dotenv (print s w)) = getenv (load_dotenv w)"
  by (simp add: getenv_def fun_eq_iff)

text \<open>The steps of the constructor, each reading the world the script started in.\<close>

lemma init_eq:
  "init w =
     (case new_model_loader w of
        Inl e \<Rightarrow> (Inl e, print ''Initializing DataIngestion pipeline...'' w)
      | Inr ml \<Rightarrow>
          (if missing_vars (load_dotenv w) \<noteq> [] then
             (Inl (EnvironmentError (''Missing environment variables: ''
                    @ repr_list (missing_vars (load_dotenv w)))),
              load_dotenv (print ''Initializing DataIngestion pipeline...'' w))
           else
             (case get_csv_path w of
                Inl e \<Rightarrow> (Inl e, load_dotenv (print ''Initializing DataIngestion pipeline...'' w))
              | Inr path \<Rightarrow>
                 (case load_csv path w of
                    Inl e \<Rightarrow> (Inl e, load_dotenv (print ''Initializing DataIngestion pipeline...'' w))
                  | Inr df \<Rightarrow>
                     (case load_config ''config/config.yaml'' w of
                        Inl e \<Rightarrow> (Inl e, load_dotenv (print ''Initializing DataIngestion pipeline...'' w))
                      | Inr cfg \<Rightarrow>
                          (Inr \<lparr>model_loader = ml,
                                google_api_key = getenv (load_dotenv w) ''GOOGLE_API_KEY'',
                                db_api_endpoint = getenv (load_dotenv w) ''ASTRA_DB_API_ENDPOINT'',
                                db_application_token =
                                  getenv (load_dotenv w) ''ASTRA_DB_APPLICATION_TOKEN'',
                                db_keyspace = getenv (load_dotenv w) ''ASTRA_DB_KEYSPACE'',
                                csv_path = path, product_data = df, config = cfg\<rparr>,
                           load_dotenv (print ''Initializing DataIngestion pipeline...'' w)))))))"
proof (cases "missing_vars (load_dotenv w) = []")
  case True
  then show ?thesis
    by (simp add: init_def Let_def load_env_variables_Inr split: sum.splits)
next
  case False
  then show ?thesis
    by (simp add: init_def Let_def load_env_variables_Inl split: sum.splits)
qed

lemma init_world:
  "snd (init w) = print ''Initializing DataIngestion pipeline...'' w \<or>
   snd (init w) = load_dotenv (print ''Initializing DataIngestion pipeline...'' w)"
  by (simp add: init_eq split: sum.splits)

lemma init_Inr:
  assumes "init w = (Inr s, w1)"
  shows "w1 = load_dotenv (print ''Initializing DataIngestion pipeline...'' w)"
    and "new_model_loader w = Inr (model_loader s)"
    and "missing_vars (load_dotenv w) = []"
    and "get_csv_path w = Inr (csv_path s)"
    and "load_csv (csv_path s) w = Inr (product_data s)"
    and "load_config ''config/config.yaml'' w = Inr (config s)"
  using assms unfolding init_eq
  by (auto split: sum.splits if_splits)

lemma init_Inl:
  assumes "init w = (Inl e, w1)"
  shows "stdout w1 = stdout w @ [Line ''Initializing DataIngestion pipeline...'']"
    and "store_calls w1 = store_calls w"
proof -
  from assms init_world [of w]
  have "w1 = print ''Initializing DataIngestion pipeline...'' w \<or>
        w1 = load_dotenv (print ''Initializing DataIngestion pipeline...'' w)"
    by simp
  then show "stdout w1 = stdout w @ [Line ''Initializing DataIngestion pipeline...'']"
    and "store_calls w1 = store_calls w"
    by auto
qed

lemma str_nat_digit: "n < 10 \<Longrightarrow> str_nat n = [''0123456789'' ! n]"
  by (simp add: str_nat.simps)

lemma transform_data_world:
  "snd (snd (transform_data self w)) =
     (case fst (transform_data self w) of
        Inl e \<Rightarrow> w
      | Inr docs \<Rightarrow>
          w\<lparr>stdout := stdout w @
             [Line (''Transformed '' @ str_nat (length docs) @ '' documents.'')]\<rparr>)"
  by (simp add: transform_data_eq print_def split: sum.splits)

lemma transform_data_demo:
  "transform_data demo_self w =
     (Inr (map row_document (rows demo_frame)), demo_self,
      print ''Transformed 2 documents.'' w)"
proof -
  have "list_all valid_row (rows (product_data demo_self))"
    by (simp add: demo_self_def demo_frame_def valid_row_def review_text_def)
  then have "documents_of (rows (product_data demo_self)) = Inr (map row_document (rows demo_frame))"
    by (simp add: documents_of_valid demo_self_def)
  moreover have "length (rows demo_frame) = 2"
    by (simp add: demo_frame_def)
  ultimately show ?thesis
    by (simp add: transform_data_eq str_nat_digit)
qed

lemma init_demo: "init demo_world =
   (Inr demo_self, load_dotenv (print ''Initializing DataIngestion pipeline...'' demo_world))"
  by (simp add: init_def load_env_variables_def missing_vars_def required_vars_def getenv_def
      get_csv_path_def load_csv_def load_config_def demo_world_def demo_self_def
      expected_columns_def demo_frame_def print_def load_dotenv_def)

text \<open>
  C9, as stated, fails: \<open>transform_data\<close> writes a progress line to standard output.
  On the sample frame the output is empty before the call and holds one line after it.
\<close>

theorem transform_data_prints_counterexample:
  "stdout demo_world = [] \<and>
   stdout (snd (snd (transform_data demo_self demo_world))) = [Line ''Transformed 2 documents.'']"
  by (simp add: transform_data_demo) (simp add: demo_world_def)

text \<open>
  C9, amended. The result of \<open>transform_data\<close> depends on the rows of \<open>product_data\<close> only,
  not on the rest of the object or on the world, so a second call returns what the first
  did; the call leaves the object as it was; and its one effect on the world is the line
  \<^verbatim>\<open>Transformed N documents.\<close> on standard output when it returns N Documents (and none
  when a row lacks a field).
\<close>

theorem transform_data_effect:
  "(\<forall>self' w'. rows (product_data self') = rows (product_data self) \<longrightarrow>
      fst (transform_data self' w') = fst (transform_data self w)) \<and>
   fst (transform_data (fst (snd (transform_data self w))) (snd (snd (transform_data self w)))) =
     fst (transform_data self w) \<and>
   fst (snd (transform_data self w)) = self \<and>
   snd (snd (transform_data self w)) =
     (case fst (transform_data self w) of
        Inl e \<Rightarrow> w
      | Inr docs \<Rightarrow>
          w\<lparr>stdout := stdout w @
             [Line (''Transformed '' @ str_nat (length docs) @ '' documents.'')]\<rparr>)"
proof (intro conjI allI impI)
  fix self' :: "'a ingestion" and w' :: "'a world"
  assume "rows (product_data self') = rows (product_data self)"
  then show "fst (transform_data self' w') = fst (transform_data self w)"
    by (simp add: fst_transform_data)
next
  show "fst (transform_data (fst (snd (transform_data self w)))
          (snd (snd (transform_data self w)))) = fst (transform_data self w)"
    by (simp add: fst_transform_data transform_data_object)
  show "fst (snd (transform_data self w)) = self"
    by (rule transform_data_object)
  show "snd (snd (transform_data self w)) =
     (case fst (transform_data self w) of
        Inl e \<Rightarrow> w
      | Inr docs \<Rightarrow>
          w\<lparr>stdout := stdout w @
             [Line (''Transformed '' @ str_nat (length docs) @ '' documents.'')]\<rparr>)"
    by (rule transform_data_world)
qed

theorem transform_data_effect_witness:
  "rows (product_data (demo_self\<lparr>csv_path := ''elsewhere''\<rparr>)) = rows (product_data demo_self) \<and>
   fst (transform_data (demo_self\<lparr>csv_path := ''elsewhere''\<rparr>) (print ''x'' demo_world)) =
     fst (transform_data demo_self demo_world) \<and>
   fst (transform_data demo_self demo_world) = Inr (map row_document (rows demo_frame)) \<and>
   snd (snd (transform_data demo_self demo_world)) =
     demo_world\<lparr>stdout := stdout demo_world @ [Line ''Transformed 2 documents.'']\<rparr>"
proof -
  have same: "rows (product_data (demo_self\<lparr>csv_path := ''elsewhere''\<rparr>)) =
      rows (product_data demo_self)"
    by simp
  have res: "fst (transform_data demo_self demo_world) = Inr (map row_document (rows demo_frame))"
    by (simp add: transform_data_demo)
  have len: "str_nat (length (map row_document (rows demo_frame))) = ''2''"
    by (simp add: demo_frame_def str_nat_digit)
  from transform_data_effect [of demo_self demo_world] same
  have "fst (transform_data (demo_self\<lparr>csv_path := ''elsewhere''\<rparr>) (print ''x'' demo_world)) =
      fst (transform_data demo_self demo_world)"
    and "snd (snd (transform_data demo_self demo_world)) =
     (case fst (transform_data demo_self demo_world) of
        Inl e \<Rightarrow> demo_world
      | Inr docs \<Rightarrow>
          demo_world\<lparr>stdout := stdout demo_world @
             [Line (''Transformed '' @ str_nat (length docs) @ '' documents.'')]\<rparr>)"
    by blast+
  with same res len show ?thesis by simp
qed

text \<open>
  C10. \<open>transform_data\<close> and \<open>run_pipeline\<close> return the object with the \<open>product_data\<close>
  they were called with, rows and order included; and where the constructor succeeds, the
  object the entry point ends with is the one the constructor built, whose \<open>product_data\<close>
  is the frame the loader returned.
\<close>

theorem pipeline_keeps_product_data:
  "product_data (fst (snd (transform_data self w))) = product_data self \<and>
   product_data (fst (snd (run_pipeline self w))) = product_data self \<and>
   (\<forall>s w1. init w = (Inr s, w1) \<longrightarrow>
      load_csv (csv_path s) w = Inr (product_data s) \<and>
      fst (snd (main w)) = Some s)"
proof (intro conjI allI impI)
  show "product_data (fst (snd (transform_data self w))) = product_data self"
    by (simp add: transform_data_object)
  show "product_data (fst (snd (run_pipeline self w))) = product_data self"
    by (simp add: run_pipeline_object)
next
  fix s w1
  assume i: "init w = (Inr s, w1)"
  then show "load_csv (csv_path s) w = Inr (product_data s)"
    by (rule init_Inr)
  from i run_pipeline_object [of s w1] show "fst (snd (main w)) = Some s"
    by (auto simp: main_def split: prod.splits)
qed

theorem pipeline_keeps_product_data_witness:
  "fst (init demo_world) = Inr demo_self \<and>
   load_csv (csv_path demo_self) demo_world = Inr demo_frame \<and>
   map_option product_data (fst (snd (main demo_world))) = Some demo_frame"
proof -
  have pd: "product_data demo_self = demo_frame"
    by (simp add: demo_self_def)
  from pipeline_keeps_product_data [of demo_self demo_world] init_demo
  have "load_csv (csv_path demo_self) demo_world = Inr (product_data demo_self)"
    and "fst (snd (main demo_world)) = Some demo_self"
    by blast+
  with pd init_demo show ?thesis by simp
qed

section \<open>The messages of the two validation errors\<close>

lemma missing_vars_absent: "missing_vars (load_dotenv w) = filter (absent w) required_vars"
proof -
  have "(\<lambda>var. getenv (load_dotenv w) var = None) = absent w"
    by (auto simp: fun_eq_iff getenv_def absent_def)
  then show ?thesis
    by (simp add: missing_vars_def)
qed

lemma sublist_comma_join:
  "x \<in> set xs \<Longrightarrow> sublist x (comma_join xs)"
proof (induction xs rule: comma_join.induct)
  case 1
  then show ?case by simp
next
  case (2 y)
  then show ?case by simp
next
  case (3 y z zs)
  show ?case
  proof (cases "x = y")
    case True
    then show ?thesis by simp
  next
    case False
    with 3 have "sublist x (comma_join (z # zs))" by simp
    then obtain ps ss where "comma_join (z # zs) = ps @ x @ ss"
      by (auto simp: sublist_def)
    then have "comma_join (y # z # zs) = (y @ '', '' @ ps) @ x @ ss"
      by simp
    then show ?thesis
      unfolding sublist_def by blast
  qed
qed

lemma names_repr_list:
  assumes "x \<in> set xs"
  shows "names (head @ repr_list xs) x"
proof -
  from assms have "sublist (repr_str x) (comma_join (map repr_str xs))"
    by (intro sublist_comma_join) simp
  then obtain ps ss where "comma_join (map repr_str xs) = ps @ repr_str x @ ss"
    by (auto simp: sublist_def)
  then have "head @ repr_list xs = (head @ ''['' @ ps) @ repr_str x @ (ss @ '']'')"
    by (simp add: repr_list_def)
  then show ?thesis
    unfolding names_def sublist_def by blast
qed

lemma names_repr_set:
  assumes "x \<in> set xs"
  shows "names (head @ repr_set xs) x"
proof -
  from assms have "sublist (repr_str x) (comma_join (map repr_str xs))"
    by (intro sublist_comma_join) simp
  then obtain ps ss where "comma_join (map repr_str xs) = ps @ repr_str x @ ss"
    by (auto simp: sublist_def)
  then have "head @ repr_set xs = (head @ ''{'' @ ps) @ repr_str x @ (ss @ ''}'')"
    by (simp add: repr_set_def)
  then show ?thesis
    unfolding names_def sublist_def by blast
qed

lemma only_missing_named:
  "list_all
     (\<lambda>missing. list_all (\<lambda>var. names (credential_message missing) var = (var \<in> set missing))
        required_vars)
     (subseqs required_vars)"
  by code_simp

lemma credential_message_names:
  assumes "var \<in> set required_vars"
  shows "names (credential_message (filter P required_vars)) var \<longleftrightarrow> P var"
proof -
  have "filter P required_vars \<in> set (subseqs required_vars)"
    by simp
  with only_missing_named assms
  have "names (credential_message (filter P required_vars)) var =
      (var \<in> set (filter P required_vars))"
    unfolding list_all_iff by blast
  with assms show ?thesis by simp
qed

lemma set_required_columns: "set required_columns = expected_columns"
  by (auto simp: required_columns_def expected_columns_def)

lemma missing_columns_empty_iff:
  "missing_columns df = [] \<longleftrightarrow> expected_columns \<subseteq> set (columns df)"
  by (auto simp: missing_columns_def filter_empty_conv set_required_columns [symmetric])

text \<open>
  C5. When one or more of the four required variables are set neither in the environment
  nor in the \<^verbatim>\<open>.env\<close> file, \<open>_load_env_variables\<close> raises one \<open>EnvironmentError\<close> whose
  message is \<^verbatim>\<open>Missing environment variables: \<close> followed by the list of all the missing
  names; the message names a required variable exactly when it is missing. The constructor
  then fails: with this error once the model loader has been built, and in any case.
\<close>

theorem missing_credentials_listed:
  assumes "\<exists>var \<in> set required_vars. absent w var"
  shows "fst (load_env_variables w) =
           Inl (EnvironmentError (credential_message (filter (absent w) required_vars))) \<and>
         (\<forall>var \<in> set required_vars.
            names (credential_message (filter (absent w) required_vars)) var \<longleftrightarrow> absent w var) \<and>
         (\<forall>ml. new_model_loader w = Inr ml \<longrightarrow>
            fst (init w) =
              Inl (EnvironmentError (credential_message (filter (absent w) required_vars)))) \<and>
         (\<exists>e. fst (init w) = Inl e)"
proof -
  from assms have missing: "missing_vars (load_dotenv w) \<noteq> []"
    by (auto simp: missing_vars_absent filter_empty_conv)
  have message: "''Missing environment variables: '' @ repr_list (missing_vars (load_dotenv w)) =
      credential_message (filter (absent w) required_vars)"
    by (simp add: credential_message_def missing_vars_absent)
  have env: "fst (load_env_variables w) =
      Inl (EnvironmentError (credential_message (filter (absent w) required_vars)))"
    using missing message by (simp add: load_env_variables_Inl)
  have named: "\<forall>var \<in> set required_vars.
      names (credential_message (filter (absent w) required_vars)) var \<longleftrightarrow> absent w var"
    by (simp add: credential_message_names)
  have constructor: "fst (init w) =
      Inl (EnvironmentError (credential_message (filter (absent w) required_vars)))"
    if "new_model_loader w = Inr ml" for ml
    using that missing message by (simp add: init_eq)
  have fails: "\<exists>e. fst (init w) = Inl e"
    using missing by (cases "new_model_loader w") (simp_all add: init_eq)
  from env named constructor fails show ?thesis by blast
qed

theorem missing_credentials_listed_witness:
  "absent demo_world_two_missing ''ASTRA_DB_APPLICATION_TOKEN'' \<and>
   absent demo_world_two_missing ''ASTRA_DB_KEYSPACE'' \<and>
   fst (init demo_world_two_missing) =
     Inl (EnvironmentError
       ''Missing environment variables: ['ASTRA_DB_APPLICATION_TOKEN', 'ASTRA_DB_KEYSPACE']'')"
proof -
  have a: "absent demo_world_two_missing ''ASTRA_DB_APPLICATION_TOKEN''"
    and b: "absent demo_world_two_missing ''ASTRA_DB_KEYSPACE''"
    by (simp_all add: absent_def demo_world_two_missing_def)
  have ex: "\<exists>var \<in> set required_vars. absent demo_world_two_missing var"
    using a by (auto simp: required_vars_def)
  have ml: "new_model_loader demo_world_two_missing = Inr ModelLoader"
    by (simp add: demo_world_two_missing_def demo_world_def)
  have msg: "credential_message (filter (absent demo_world_two_missing) required_vars) =
      ''Missing environment variables: ['ASTRA_DB_APPLICATION_TOKEN', 'ASTRA_DB_KEYSPACE']''"
    by (simp add: credential_message_def required_vars_def absent_def demo_world_two_missing_def
        repr_list_def repr_str_def)
  from missing_credentials_listed [OF ex] ml
  have "fst (init demo_world_two_missing) =
      Inl (EnvironmentError
        (credential_message (filter (absent demo_world_two_missing) required_vars)))"
    by blast
  with a b msg show ?thesis by simp
qed

text \<open>
  C3, as stated, fails: with only \<open>review\<close> missing from the file, the message names all
  four required columns, so it does not name exactly the missing one.
\<close>

theorem schema_error_names_missing_counterexample:
  "load_csv ''/app/data/flipkart_product_review.csv'' demo_world_no_review =
     Inl (ValueError
       ''CSV must contain columns: {'rating', 'review', 'product_title', 'summary'}'') \<and>
   missing_columns demo_frame_no_review = [''review''] \<and>
   \<not> names_exactly
       ''CSV must contain columns: {'rating', 'review', 'product_title', 'summary'}''
       [''review'']"
proof -
  have "load_csv ''/app/data/flipkart_product_review.csv'' demo_world_no_review =
     Inl (ValueError
       ''CSV must contain columns: {'rating', 'review', 'product_title', 'summary'}'')"
    by (simp add: load_csv_def demo_world_no_review_def demo_world_def demo_frame_no_review_def
        expected_columns_def repr_set_def repr_str_def)
  moreover have "missing_columns demo_frame_no_review = [''review'']"
    by (simp add: missing_columns_def demo_frame_no_review_def required_columns_def)
  moreover have "\<not> names_exactly
       ''CSV must contain columns: {'rating', 'review', 'product_title', 'summary'}''
       [''review'']"
    by code_simp
  ultimately show ?thesis by blast
qed

text \<open>
  C3, amended. When the file lacks one or more required columns, \<open>_load_csv\<close> raises a
  \<open>ValueError\<close> whose message is \<^verbatim>\<open>CSV must contain columns: \<close> followed by the whole
  required set, the same whichever columns are missing; it names each of the four required
  columns (the set iterating its four members in some order).
\<close>

theorem schema_error_names_required_set:
  assumes "read_csv w path = Inr df" and "missing_columns df \<noteq> []"
  shows "load_csv path w = Inl (ValueError (schema_message w)) \<and>
         (set (hash_order w) = expected_columns \<longrightarrow>
            list_all (names (schema_message w)) required_columns)"
proof -
  from assms(2) have "\<not> expected_columns \<subseteq> set (columns df)"
    by (simp add: missing_columns_empty_iff)
  with assms(1) have "load_csv path w = Inl (ValueError (schema_message w))"
    by (simp add: load_csv_def schema_message_def)
  moreover have "list_all (names (schema_message w)) required_columns"
    if "set (hash_order w) = expected_columns"
  proof -
    have "names (schema_message w) c" if "c \<in> set required_columns" for c
    proof -
      from that \<open>set (hash_order w) = expected_columns\<close> have "c \<in> set (hash_order w)"
        by (simp add: set_required_columns)
      then show ?thesis
        unfolding schema_message_def by (rule names_repr_set)
    qed
    then show ?thesis
      by (simp add: list_all_iff)
  qed
  ultimately show ?thesis by blast
qed

theorem schema_error_names_required_set_witness:
  "read_csv demo_world_no_review ''/app/data/flipkart_product_review.csv'' =
     Inr demo_frame_no_review \<and>
   missing_columns demo_frame_no_review = [''review''] \<and>
   load_csv ''/app/data/flipkart_product_review.csv'' demo_world_no_review =
     Inl (ValueError (schema_message demo_world_no_review)) \<and>
   list_all (names (schema_message demo_world_no_review)) required_columns"
proof -
  have r: "read_csv demo_world_no_review ''/app/data/flipkart_product_review.csv'' =
      Inr demo_frame_no_review"
    by (simp add: demo_world_no_review_def)
  have m: "missing_columns demo_frame_no_review = [''review'']"
    by (simp add: missing_columns_def demo_frame_no_review_def required_columns_def)
  then have ne: "missing_columns demo_frame_no_review \<noteq> []"
    by simp
  have h: "set (hash_order demo_world_no_review) = expected_columns"
    by (auto simp: demo_world_no_review_def demo_world_def expected_columns_def)
  from schema_error_names_required_set [OF r ne] h r m show ?thesis
    by blast
qed

section \<open>The store step, the run and the entry point\<close>

lemma print_results_stdout:
  "stdout (print_results rs w) = stdout w @ map (\<lambda>d. ResultLine (page_content d) (metadata d)) rs"
  by (induction rs arbitrary: w) simp_all

lemma print_results_store_calls: "store_calls (print_results rs w) = store_calls w"
  by (induction rs arbitrary: w) simp_all

lemma store_in_vector_db_config_error:
  "yaml_getitem (config self) ''astra_db'' = Inl e \<Longrightarrow>
     store_in_vector_db self docs w = (Inl e, self, w)"
  "yaml_getitem (config self) ''astra_db'' = Inr a \<Longrightarrow> yaml_getitem a ''collection_name'' = Inl e \<Longrightarrow>
     store_in_vector_db self docs w = (Inl e, self, w)"
  by (simp_all add: store_in_vector_db_def)

lemma store_in_vector_db_write:
  assumes "yaml_getitem (config self) ''astra_db'' = Inr a"
    and "yaml_getitem a ''collection_name'' = Inr c"
    and "load_embeddings w = Inr emb"
    and "new_vector_store w (client self emb c) = None"
  shows "store_in_vector_db self docs w =
     (case add_documents_outcome w (store_calls w) (client self emb c) docs of
        Inl e \<Rightarrow> (Inl e, self, send (AddDocuments (client self emb c) docs) w)
      | Inr ids \<Rightarrow>
          (Inr (client self emb c, ids), self,
           print (''Successfully inserted '' @ str_nat (length ids) @ '' documents into AstraDB.'')
             (send (AddDocuments (client self emb c) docs) w)))"
  using assms by (simp add: store_in_vector_db_def client_def Let_def split: sum.splits)

lemma run_pipeline_written:
  assumes t: "fst (transform_data self w) = Inr docs"
    and a: "yaml_getitem (config self) ''astra_db'' = Inr a"
    and c: "yaml_getitem a ''collection_name'' = Inr c"
    and emb: "load_embeddings w = Inr emb"
    and new: "new_vector_store w (client self emb c) = None"
    and ids: "add_documents_outcome w (store_calls w) (client self emb c) docs = Inr ids"
  shows "run_pipeline self w =
     (case similarity_search_outcome w
             (store_calls w @ [AddDocuments (client self emb c) docs]) (client self emb c) query of
        Inl e \<Rightarrow>
          (Inl e, self,
           w\<lparr>stdout := stdout w @ [transformed_line (length docs), inserted_line (length ids)],
             store_calls := store_calls w @
               [AddDocuments (client self emb c) docs,
                SimilaritySearch (client self emb c) query]\<rparr>)
      | Inr results \<Rightarrow>
          (Inr (), self,
           w\<lparr>stdout := stdout w @
               [transformed_line (length docs), inserted_line (length ids), sample_line] @
               map (\<lambda>d. ResultLine (page_content d) (metadata d)) results,
             store_calls := store_calls w @
               [AddDocuments (client self emb c) docs,
                SimilaritySearch (client self emb c) query]\<rparr>))"
proof -
  let ?w1 = "print (''Transformed '' @ str_nat (length docs) @ '' documents.'') w"
  let ?vs = "client self emb c"
  from t have td: "transform_data self w = (Inr docs, self, ?w1)"
    by (simp add: transform_data_eq split: sum.splits)
  have st: "store_in_vector_db self docs ?w1 =
      (Inr (?vs, ids), self,
       print (''Successfully inserted '' @ str_nat (length ids) @ '' documents into AstraDB.'')
         (send (AddDocuments ?vs docs) ?w1))"
    using store_in_vector_db_write [of self a c ?w1 emb docs] a c emb new ids
    by simp
  show ?thesis
  proof (cases "similarity_search_outcome w (store_calls w @ [AddDocuments ?vs docs]) ?vs query")
    case (Inl e)
    with td st show ?thesis
      by (simp add: run_pipeline_def Let_def transformed_line_def inserted_line_def
          print_def send_def)
  next
    case (Inr results)
    have "print_results results w' =
        w'\<lparr>stdout := stdout w' @ map (\<lambda>d. ResultLine (page_content d) (metadata d)) results\<rparr>"
      for w' :: "'a world"
      by (induction results arbitrary: w') simp_all
    with Inr td st show ?thesis
      by (simp add: run_pipeline_def Let_def transformed_line_def inserted_line_def
          sample_line_def print_def send_def)
  qed
qed

lemma demo_config_keys:
  "yaml_getitem (config demo_self) ''astra_db'' = Inr (YMap [''collection_name'' \<mapsto> YStr ''reviews''])"
  "yaml_getitem (YMap [''collection_name'' \<mapsto> YStr ''reviews'']) ''collection_name'' =
     Inr (YStr ''reviews'')"
  by (simp_all add: demo_self_def demo_config_def getitem_def)

lemma demo_client_eq: "client demo_self (Embedding ''m'') (YStr ''reviews'') = demo_client"
  by (simp add: client_def demo_client_def demo_self_def)

lemma main_init_Inr:
  "init w = (Inr s, w1) \<Longrightarrow> run_pipeline s w1 = (r, s', w2) \<Longrightarrow> main w = (r, Some s', w2)"
  by (simp add: main_def)

lemma main_init_Inl: "init w = (Inl e, w1) \<Longrightarrow> main w = (Inl e, None, w1)"
  by (simp add: main_def)

lemma load_dotenv_store_simps [simp]:
  "load_embeddings (load_dotenv w) = load_embeddings w"
  "new_vector_store (load_dotenv w) = new_vector_store w"
  "add_documents_outcome (load_dotenv w) = add_documents_outcome w"
  "similarity_search_outcome (load_dotenv w) = similarity_search_outcome w"
  by (simp_all add: load_dotenv_def)

lemma init_like_demo:
  assumes "environ w = environ demo_world" "dotenv_file w = dotenv_file demo_world"
    and "cwd w = cwd demo_world" "path_exists w = path_exists demo_world"
    and "read_csv w = read_csv demo_world" "open_read w = open_read demo_world"
    and "safe_load w = safe_load demo_world" "new_model_loader w = new_model_loader demo_world"
  shows "init w = (Inr demo_self, load_dotenv (print ''Initializing DataIngestion pipeline...'' w))"
proof -
  have ml: "new_model_loader w = Inr ModelLoader"
    using assms(8) by (simp add: demo_world_def)
  have env: "getenv (load_dotenv w) ''GOOGLE_API_KEY'' = Some ''k''"
    "getenv (load_dotenv w) ''ASTRA_DB_API_ENDPOINT'' = Some ''e''"
    "getenv (load_dotenv w) ''ASTRA_DB_APPLICATION_TOKEN'' = Some ''t''"
    "getenv (load_dotenv w) ''ASTRA_DB_KEYSPACE'' = Some ''ks''"
    using assms(1,2) by (simp_all add: getenv_def demo_world_def map_add_def)
  then have missing: "missing_vars (load_dotenv w) = []"
    by (simp add: missing_vars_def required_vars_def)
  have path: "get_csv_path w = Inr ''/app/data/flipkart_product_review.csv''"
    using assms(3,4) by (simp add: get_csv_path_def demo_world_def)
  have csv: "load_csv ''/app/data/flipkart_product_review.csv'' w = Inr demo_frame"
    using assms(5)
    by (simp add: load_csv_def demo_world_def) (simp add: demo_frame_def expected_columns_def)
  have cfg: "load_config ''config/config.yaml'' w = Inr demo_config"
    using assms(6,7) by (simp add: load_config_def demo_world_def)
  from ml env missing path csv cfg show ?thesis
    by (simp add: init_eq demo_self_def)
qed

lemma main_like_demo:
  assumes "environ w = environ demo_world" "dotenv_file w = dotenv_file demo_world"
    and "cwd w = cwd demo_world" "path_exists w = path_exists demo_world"
    and "read_csv w = read_csv demo_world" "open_read w = open_read demo_world"
    and "safe_load w = safe_load demo_world" "new_model_loader w = new_model_loader demo_world"
    and "load_embeddings w = Inr (Embedding ''m'')" "new_vector_store w = (\<lambda>vs. None)"
    and "add_documents_outcome w (store_calls w) demo_client (map row_document (rows demo_frame)) =
           Inr ids"
  shows "fst (main w) =
           (case similarity_search_outcome w
                   (store_calls w @ [AddDocuments demo_client (map row_document (rows demo_frame))])
                   demo_client query of
              Inl e \<Rightarrow> Inl e | Inr results \<Rightarrow> Inr ())"
    and "stdout (snd (snd (main w))) =
           stdout w @ [Line ''Initializing DataIngestion pipeline...'', transformed_line 2,
             inserted_line (length ids)] @
           (case similarity_search_outcome w
                   (store_calls w @ [AddDocuments demo_client (map row_document (rows demo_frame))])
                   demo_client query of
              Inl e \<Rightarrow> []
            | Inr results \<Rightarrow>
                sample_line # map (\<lambda>d. ResultLine (page_content d) (metadata d)) results)"
    and "store_calls (snd (snd (main w))) =
           store_calls w @ [AddDocuments demo_client (map row_document (rows demo_frame)),
             SimilaritySearch demo_client query]"
proof -
  let ?w1 = "load_dotenv (print ''Initializing DataIngestion pipeline...'' w)"
  let ?docs = "map row_document (rows demo_frame)"
  have i: "init w = (Inr demo_self, ?w1)"
    using assms(1-8) by (rule init_like_demo)
  have t: "fst (transform_data demo_self ?w1) = Inr ?docs"
    by (simp add: transform_data_demo)
  have len: "length ?docs = 2"
    by (simp add: demo_frame_def)
  have new: "new_vector_store ?w1 (client demo_self (Embedding ''m'') (YStr ''reviews'')) = None"
    using assms(10) by simp
  have ids: "add_documents_outcome ?w1 (store_calls ?w1)
      (client demo_self (Embedding ''m'') (YStr ''reviews'')) ?docs = Inr ids"
    using assms(11) by (simp add: demo_client_eq)
  have emb: "load_embeddings ?w1 = Inr (Embedding ''m'')"
    using assms(9) by simp
  note run = run_pipeline_written [OF t demo_config_keys emb new ids, unfolded demo_client_eq len]
  show "fst (main w) =
           (case similarity_search_outcome w
                   (store_calls w @ [AddDocuments demo_client ?docs]) demo_client query of
              Inl e \<Rightarrow> Inl e | Inr results \<Rightarrow> Inr ())"
    using i run by (simp add: main_def split: sum.splits)
  show "stdout (snd (snd (main w))) =
           stdout w @ [Line ''Initializing DataIngestion pipeline...'', transformed_line 2,
             inserted_line (length ids)] @
           (case similarity_search_outcome w
                   (store_calls w @ [AddDocuments demo_client ?docs]) demo_client query of
              Inl e \<Rightarrow> []
            | Inr results \<Rightarrow>
                sample_line # map (\<lambda>d. ResultLine (page_content d) (metadata d)) results)"
    using i run by (simp add: main_def split: sum.splits)
  show "store_calls (snd (snd (main w))) =
           store_calls w @ [AddDocuments demo_client ?docs, SimilaritySearch demo_client query]"
    using i run by (simp add: main_def split: sum.splits)
qed

lemma get_csv_path_eq:
  "get_csv_path w =
     (if path_exists w (data_file w) then Inr (data_file w)
      else Inl (FileNotFoundError (''CSV file not found at: '' @ data_file w)))"
  by (simp add: get_csv_path_def data_file_def Let_def)

lemma init_fails_setup:
  assumes "(\<exists>var \<in> set required_vars. absent w var) \<or>
           \<not> path_exists w (data_file w) \<or>
           (\<exists>df. read_csv w (data_file w) = Inr df \<and> missing_columns df \<noteq> []) \<or>
           (\<exists>e. load_config ''config/config.yaml'' w = Inl e)"
  shows "\<exists>e. fst (init w) = Inl e"
proof (cases "fst (init w)")
  case (Inl e)
  then show ?thesis by blast
next
  case (Inr s)
  then have i: "init w = (Inr s, snd (init w))"
    by (cases "init w") simp
  note facts = init_Inr [OF i]
  from facts(3) have "\<not> (\<exists>var \<in> set required_vars. absent w var)"
    by (simp add: missing_vars_absent filter_empty_conv)
  moreover from facts(4) have p: "path_exists w (data_file w)" "csv_path s = data_file w"
    by (auto simp: get_csv_path_eq split: if_splits)
  moreover from facts(5) p(2)
  have "\<not> (\<exists>df. read_csv w (data_file w) = Inr df \<and> missing_columns df \<noteq> [])"
    by (auto simp: load_csv_def missing_columns_empty_iff split: sum.splits if_splits)
  moreover from facts(6) have "\<not> (\<exists>e. load_config ''config/config.yaml'' w = Inl e)"
    by simp
  ultimately show ?thesis
    using assms by blast
qed

text \<open>
  C2, as stated, fails: no count check exists. With a store that returns one identifier
  for two Documents, the run prints that it inserted 1 document, goes on to the sample
  search and ends normally.
\<close>

theorem count_mismatch_reports_success_counterexample:
  "length (rows demo_frame) = 2 \<and>
   add_documents_outcome demo_world_short_store [] demo_client
     (map row_document (rows demo_frame)) = Inr [''id-1''] \<and>
   fst (main demo_world_short_store) = Inr () \<and>
   stdout (snd (snd (main demo_world_short_store))) =
     [Line ''Initializing DataIngestion pipeline...'', Line ''Transformed 2 documents.'',
      Line ''Successfully inserted 1 documents into AstraDB.'', sample_line]"
proof -
  have ids: "add_documents_outcome demo_world_short_store (store_calls demo_world_short_store)
      demo_client (map row_document (rows demo_frame)) = Inr [''id-1'']"
    by (simp add: demo_world_short_store_def)
  have search: "similarity_search_outcome demo_world_short_store calls vs q = Inr []" for calls vs q
    by (simp add: demo_world_short_store_def demo_world_def)
  have out: "stdout demo_world_short_store = []" "store_calls demo_world_short_store = []"
    by (simp_all add: demo_world_short_store_def demo_world_def)
  note run = main_like_demo [of demo_world_short_store, OF _ _ _ _ _ _ _ _ _ _ ids]
  have "fst (main demo_world_short_store) = Inr ()"
    by (subst run(1)) (simp_all add: demo_world_short_store_def search, simp_all add: demo_world_def)
  moreover have "stdout (snd (snd (main demo_world_short_store))) =
     [Line ''Initializing DataIngestion pipeline...'', Line ''Transformed 2 documents.'',
      Line ''Successfully inserted 1 documents into AstraDB.'', sample_line]"
    by (subst run(2)) (simp_all add: demo_world_short_store_def search transformed_line_def
        inserted_line_def str_nat_digit, simp_all add: demo_world_def)
  moreover have "length (rows demo_frame) = 2"
    by (simp add: demo_frame_def)
  ultimately show ?thesis
    using ids out by simp
qed

text \<open>
  C2, amended. When the rows transform to N Documents and the store write returns
  identifiers, the run prints \<^verbatim>\<open>Successfully inserted K documents into AstraDB.\<close> with K
  the number of identifiers returned, whatever K is (so N when the store returns one per
  Document), and goes on to the sample search: it ends normally exactly when the search
  returns, and otherwise with the search's error.
\<close>

theorem run_reports_returned_count:
  assumes "fst (transform_data self w) = Inr docs"
    and "yaml_getitem (config self) ''astra_db'' = Inr a"
    and "yaml_getitem a ''collection_name'' = Inr c"
    and "load_embeddings w = Inr emb"
    and "new_vector_store w (client self emb c) = None"
    and "add_documents_outcome w (store_calls w) (client self emb c) docs = Inr ids"
  shows "length docs = length (rows (product_data self)) \<and>
         fst (run_pipeline self w) =
           (case similarity_search_outcome w
                   (store_calls w @ [AddDocuments (client self emb c) docs])
                   (client self emb c) query of
              Inl e \<Rightarrow> Inl e
            | Inr results \<Rightarrow> Inr ()) \<and>
         (\<exists>rest. stdout (snd (snd (run_pipeline self w))) =
            stdout w @ [transformed_line (length docs), inserted_line (length ids)] @ rest)"
proof -
  from assms(1) have "docs = map row_document (rows (product_data self))"
    by (simp add: fst_transform_data documents_of_Inr_iff)
  then have len: "length docs = length (rows (product_data self))"
    by simp
  note run = run_pipeline_written [OF assms]
  have res: "fst (run_pipeline self w) =
      (case similarity_search_outcome w
              (store_calls w @ [AddDocuments (client self emb c) docs])
              (client self emb c) query of
         Inl e \<Rightarrow> Inl e
       | Inr results \<Rightarrow> Inr ())"
    by (simp add: run split: sum.splits)
  have out: "\<exists>rest. stdout (snd (snd (run_pipeline self w))) =
      stdout w @ [transformed_line (length docs), inserted_line (length ids)] @ rest"
    by (simp add: run split: sum.splits)
  from len res out show ?thesis by blast
qed

theorem run_reports_returned_count_witness:
  "fst (transform_data demo_self demo_world_short_store) =
     Inr (map row_document (rows demo_frame)) \<and>
   add_documents_outcome demo_world_short_store (store_calls demo_world_short_store)
     demo_client (map row_document (rows demo_frame)) = Inr [''id-1''] \<and>
   length (map row_document (rows demo_frame)) = length (rows (product_data demo_self)) \<and>
   fst (run_pipeline demo_self demo_world_short_store) = Inr () \<and>
   (\<exists>rest. stdout (snd (snd (run_pipeline demo_self demo_world_short_store))) =
      stdout demo_world_short_store @ [transformed_line 2, inserted_line 1] @ rest)"
proof -
  let ?w = demo_world_short_store
  let ?docs = "map row_document (rows demo_frame)"
  have t: "fst (transform_data demo_self ?w) = Inr ?docs"
    by (simp add: transform_data_demo)
  have emb: "load_embeddings ?w = Inr (Embedding ''m'')"
    by (simp add: demo_world_short_store_def demo_world_def)
  have new: "new_vector_store ?w (client demo_self (Embedding ''m'') (YStr ''reviews'')) = None"
    by (simp add: demo_world_short_store_def demo_world_def)
  have ids: "add_documents_outcome ?w (store_calls ?w)
      (client demo_self (Embedding ''m'') (YStr ''reviews'')) ?docs = Inr [''id-1'']"
    by (simp add: demo_world_short_store_def)
  have search: "similarity_search_outcome ?w calls vs q = Inr []" for calls vs q
    by (simp add: demo_world_short_store_def demo_world_def)
  have len: "length (rows demo_frame) = 2"
    by (simp add: demo_frame_def)
  from run_reports_returned_count [OF t demo_config_keys emb new ids] t ids
  show ?thesis
    by (simp add: search len demo_client_eq)
qed

text \<open>
  C4, as stated, fails: with a store that accepts the write and whose search times out,
  the entry point ends with the search's error, after the write and with no further output.
\<close>

theorem search_failure_aborts_counterexample:
  "add_documents_outcome demo_world_search_fails [] demo_client
     (map row_document (rows demo_frame)) = Inr [''id'', ''id''] \<and>
   store_calls (snd (snd (main demo_world_search_fails))) =
     [AddDocuments demo_client (map row_document (rows demo_frame)),
      SimilaritySearch demo_client query] \<and>
   fst (main demo_world_search_fails) = Inl (External ''timeout'') \<and>
   stdout (snd (snd (main demo_world_search_fails))) =
     [Line ''Initializing DataIngestion pipeline...'', Line ''Transformed 2 documents.'',
      Line ''Successfully inserted 2 documents into AstraDB.'']"
proof -
  let ?w = demo_world_search_fails
  have ids0: "add_documents_outcome ?w [] demo_client (map row_document (rows demo_frame)) =
      Inr [''id'', ''id'']"
    by (simp add: demo_world_search_fails_def demo_world_def demo_frame_def)
  have out: "stdout ?w = []" "store_calls ?w = []"
    by (simp_all add: demo_world_search_fails_def demo_world_def)
  from ids0 out have ids: "add_documents_outcome ?w (store_calls ?w) demo_client
      (map row_document (rows demo_frame)) = Inr [''id'', ''id'']"
    by simp
  have search: "similarity_search_outcome ?w calls vs q = Inl (External ''timeout'')"
    for calls vs q
    by (simp add: demo_world_search_fails_def)
  note run = main_like_demo [of ?w, OF _ _ _ _ _ _ _ _ _ _ ids]
  have "fst (main ?w) = Inl (External ''timeout'')"
    by (subst run(1)) (simp_all add: demo_world_search_fails_def search, simp_all add: demo_world_def)
  moreover have "stdout (snd (snd (main ?w))) =
     [Line ''Initializing DataIngestion pipeline...'', Line ''Transformed 2 documents.'',
      Line ''Successfully inserted 2 documents into AstraDB.'']"
    by (subst run(2)) (simp_all add: demo_world_search_fails_def search transformed_line_def
        inserted_line_def str_nat_digit, simp_all add: demo_world_def)
  moreover have "store_calls (snd (snd (main ?w))) =
     [AddDocuments demo_client (map row_document (rows demo_frame)),
      SimilaritySearch demo_client query]"
    by (subst run(3)) (simp_all add: demo_world_search_fails_def, simp_all add: demo_world_def)
  ultimately show ?thesis
    using ids0 by simp
qed

text \<open>
  C4, amended. When the store write succeeds and the sample search fails, \<open>run_pipeline\<close>
  ends with the search's error: after the two progress lines nothing is printed (no
  warning, no results), and the write and the search are the two requests the store has
  received, the write not being undone.
\<close>

theorem search_failure_propagates:
  assumes "fst (transform_data self w) = Inr docs"
    and "yaml_getitem (config self) ''astra_db'' = Inr a"
    and "yaml_getitem a ''collection_name'' = Inr c"
    and "load_embeddings w = Inr emb"
    and "new_vector_store w (client self emb c) = None"
    and "add_documents_outcome w (store_calls w) (client self emb c) docs = Inr ids"
    and "similarity_search_outcome w (store_calls w @ [AddDocuments (client self emb c) docs])
           (client self emb c) query = Inl e"
  shows "run_pipeline self w =
           (Inl e, self,
            w\<lparr>stdout := stdout w @ [transformed_line (length docs), inserted_line (length ids)],
              store_calls := store_calls w @
                [AddDocuments (client self emb c) docs,
                 SimilaritySearch (client self emb c) query]\<rparr>)"
  using run_pipeline_written [OF assms(1-6)] assms(7) by simp

theorem search_failure_propagates_witness:
  "fst (transform_data demo_self demo_world_search_fails) =
     Inr (map row_document (rows demo_frame)) \<and>
   add_documents_outcome demo_world_search_fails (store_calls demo_world_search_fails)
     demo_client (map row_document (rows demo_frame)) = Inr [''id'', ''id''] \<and>
   run_pipeline demo_self demo_world_search_fails =
     (Inl (External ''timeout''), demo_self,
      demo_world_search_fails
        \<lparr>stdout := stdout demo_world_search_fails @ [transformed_line 2, inserted_line 2],
         store_calls := store_calls demo_world_search_fails @
           [AddDocuments demo_client (map row_document (rows demo_frame)),
            SimilaritySearch demo_client query]\<rparr>)"
proof -
  let ?w = demo_world_search_fails
  let ?docs = "map row_document (rows demo_frame)"
  have t: "fst (transform_data demo_self ?w) = Inr ?docs"
    by (simp add: transform_data_demo)
  have emb: "load_embeddings ?w = Inr (Embedding ''m'')"
    by (simp add: demo_world_search_fails_def demo_world_def)
  have new: "new_vector_store ?w (client demo_self (Embedding ''m'') (YStr ''reviews'')) = None"
    by (simp add: demo_world_search_fails_def demo_world_def)
  have ids: "add_documents_outcome ?w (store_calls ?w)
      (client demo_self (Embedding ''m'') (YStr ''reviews'')) ?docs = Inr [''id'', ''id'']"
    by (simp add: demo_world_search_fails_def demo_world_def demo_frame_def)
  have search: "similarity_search_outcome ?w
      (store_calls ?w @ [AddDocuments (client demo_self (Embedding ''m'') (YStr ''reviews'')) ?docs])
      (client demo_self (Embedding ''m'') (YStr ''reviews'')) query = Inl (External ''timeout'')"
    by (simp add: demo_world_search_fails_def)
  have len: "length (rows demo_frame) = 2"
    by (simp add: demo_frame_def)
  from search_failure_propagates [OF t demo_config_keys emb new ids search] t ids
  show ?thesis
    by (simp add: len demo_client_eq numeral_2_eq_2)
qed

text \<open>
  C6. Whenever the constructor fails, the entry point ends with its error, no object, no
  request sent to the store and nothing printed beyond the constructor's first line. The
  constructor fails whenever a required credential is absent, the data file does not
  exist, the file lacks a required column or the configuration cannot be loaded. With the
  model loader built and the credentials present, a missing data file ends the entry point
  with \<open>FileNotFoundError\<close> and the world as the constructor left it: the environment
  loaded, one line printed, no transform, store write or search. A configuration without
  the collection name ends \<open>store_in_vector_db\<close> before the client is built, the world
  unchanged.
\<close>

theorem setup_errors_abort_before_store:
  "(\<forall>e w1. init w = (Inl e, w1) \<longrightarrow>
      main w = (Inl e, None, w1) \<and> store_calls w1 = store_calls w \<and>
      stdout w1 = stdout w @ [Line ''Initializing DataIngestion pipeline...'']) \<and>
   ((\<exists>var \<in> set required_vars. absent w var) \<or>
    \<not> path_exists w (data_file w) \<or>
    (\<exists>df. read_csv w (data_file w) = Inr df \<and> missing_columns df \<noteq> []) \<or>
    (\<exists>e. load_config ''config/config.yaml'' w = Inl e) \<longrightarrow>
      (\<exists>e. fst (init w) = Inl e)) \<and>
   (\<forall>ml. new_model_loader w = Inr ml \<and> (\<forall>var \<in> set required_vars. \<not> absent w var) \<and>
      \<not> path_exists w (data_file w) \<longrightarrow>
      main w =
        (Inl (FileNotFoundError (''CSV file not found at: '' @ data_file w)), None,
         w\<lparr>environ := dotenv_file w ++ environ w,
           stdout := stdout w @ [Line ''Initializing DataIngestion pipeline...'']\<rparr>)) \<and>
   (\<forall>self docs e.
      yaml_getitem (config self) ''astra_db'' = Inl e \<or>
      (\<exists>a. yaml_getitem (config self) ''astra_db'' = Inr a \<and>
           yaml_getitem a ''collection_name'' = Inl e) \<longrightarrow>
      store_in_vector_db self docs w = (Inl e, self, w))"
proof (intro conjI allI impI)
  fix e w1
  assume i: "init w = (Inl e, w1)"
  then show "main w = (Inl e, None, w1)"
    by (rule main_init_Inl)
  from i show "store_calls w1 = store_calls w"
    by (rule init_Inl)
  from i show "stdout w1 = stdout w @ [Line ''Initializing DataIngestion pipeline...'']"
    by (rule init_Inl)
next
  assume "(\<exists>var \<in> set required_vars. absent w var) \<or>
    \<not> path_exists w (data_file w) \<or>
    (\<exists>df. read_csv w (data_file w) = Inr df \<and> missing_columns df \<noteq> []) \<or>
    (\<exists>e. load_config ''config/config.yaml'' w = Inl e)"
  then show "\<exists>e. fst (init w) = Inl e"
    by (rule init_fails_setup)
next
  fix ml
  assume h: "new_model_loader w = Inr ml \<and> (\<forall>var \<in> set required_vars. \<not> absent w var) \<and>
      \<not> path_exists w (data_file w)"
  then have "missing_vars (load_dotenv w) = []"
    by (simp add: missing_vars_absent filter_empty_conv)
  with h have "init w =
      (Inl (FileNotFoundError (''CSV file not found at: '' @ data_file w)),
       load_dotenv (print ''Initializing DataIngestion pipeline...'' w))"
    by (simp add: init_eq get_csv_path_eq)
  then have "main w =
      (Inl (FileNotFoundError (''CSV file not found at: '' @ data_file w)), None,
       load_dotenv (print ''Initializing DataIngestion pipeline...'' w))"
    by (rule main_init_Inl)
  then show "main w =
        (Inl (FileNotFoundError (''CSV file not found at: '' @ data_file w)), None,
         w\<lparr>environ := dotenv_file w ++ environ w,
           stdout := stdout w @ [Line ''Initializing DataIngestion pipeline...'']\<rparr>)"
    by (simp add: load_dotenv_def print_def)
next
  fix self :: "'a ingestion" and docs :: "'a document list" and e
  assume "yaml_getitem (config self) ''astra_db'' = Inl e \<or>
      (\<exists>a. yaml_getitem (config self) ''astra_db'' = Inr a \<and>
           yaml_getitem a ''collection_name'' = Inl e)"
  then show "store_in_vector_db self docs w = (Inl e, self, w)"
    by (auto simp: store_in_vector_db_config_error)
qed

theorem setup_errors_abort_before_store_witness:
  "new_model_loader demo_world_no_file = Inr ModelLoader \<and>
   list_all (\<lambda>var. \<not> absent demo_world_no_file var) required_vars \<and>
   \<not> path_exists demo_world_no_file (data_file demo_world_no_file) \<and>
   fst (main demo_world_no_file) =
     Inl (FileNotFoundError ''CSV file not found at: /app/data/flipkart_product_review.csv'') \<and>
   fst (snd (main demo_world_no_file)) = None \<and>
   stdout (snd (snd (main demo_world_no_file))) =
     [Line ''Initializing DataIngestion pipeline...''] \<and>
   store_calls (snd (snd (main demo_world_no_file))) = []"
proof -
  let ?w = demo_world_no_file
  have ml: "new_model_loader ?w = Inr ModelLoader"
    by (simp add: demo_world_no_file_def demo_world_def)
  have present: "\<forall>var \<in> set required_vars. \<not> absent ?w var"
    by (simp add: required_vars_def absent_def demo_world_no_file_def demo_world_def)
  have nofile: "\<not> path_exists ?w (data_file ?w)"
    by (simp add: demo_world_no_file_def)
  have location: "data_file ?w = ''/app/data/flipkart_product_review.csv''"
    by (simp add: data_file_def demo_world_no_file_def demo_world_def)
  have out: "stdout ?w = []" "store_calls ?w = []"
    by (simp_all add: demo_world_no_file_def demo_world_def)
  from setup_errors_abort_before_store [of ?w] ml present nofile
  have "main ?w =
      (Inl (FileNotFoundError (''CSV file not found at: '' @ data_file ?w)), None,
       ?w\<lparr>environ := dotenv_file ?w ++ environ ?w,
          stdout := stdout ?w @ [Line ''Initializing DataIngestion pipeline...'']\<rparr>)"
    by blast
  with ml present nofile location out show ?thesis
    by (simp add: list_all_iff)
qed

end
